theory Spec2Isabelle
  imports Main "HOL-Library.Multiset" "HOL-Library.Sublist"
begin

section \<open>JavaScript values and runtime conventions\<close>

text \<open>
  The services exchange JSON data with the model backend and with the tool handlers.
  A JavaScript value is modelled by the tree below. Numbers are integers (no claim
  depends on fractions); a thrown \<open>Error\<close> is a value carrying its \<open>message\<close> and its
  optional \<open>code\<close>.
\<close>

datatype js =
    JUndefined
  | JNull
  | JBool bool
  | JNum int
  | JStr string
  | JArr "js list"
  | JObj "(string \<times> js) list"

datatype error = Error (err_message: string) (err_code: "string option")

text \<open>\<open>!!v\<close>: the falsy values are undefined, null, false, 0 and the empty string.\<close>

fun truthy :: "js \<Rightarrow> bool" where
  "truthy JUndefined = False"
| "truthy JNull = False"
| "truthy (JBool b) = b"
| "truthy (JNum n) = (n \<noteq> 0)"
| "truthy (JStr s) = (s \<noteq> [])"
| "truthy (JArr xs) = True"
| "truthy (JObj kvs) = True"

fun typeof :: "js \<Rightarrow> string" where
  "typeof JUndefined = ''undefined''"
| "typeof JNull = ''object''"
| "typeof (JBool b) = ''boolean''"
| "typeof (JNum n) = ''number''"
| "typeof (JStr s) = ''string''"
| "typeof (JArr xs) = ''object''"
| "typeof (JObj kvs) = ''object''"

text \<open>Property read \<open>v.k\<close> on a value that is not null or undefined.\<close>

fun js_get :: "js \<Rightarrow> string \<Rightarrow> js" where
  "js_get (JObj kvs) k = (case map_of kvs k of Some v \<Rightarrow> v | None \<Rightarrow> JUndefined)"
| "js_get v k = JUndefined"

text \<open>
  \<open>n || d\<close> on a configured number: \<open>0\<close> and \<open>NaN\<close> are both falsy and the
  configuration's numbers are only ever read through \<open>||\<close>, so \<open>NaN\<close> is represented
  by \<open>0\<close>.
\<close>

definition js_or :: "int \<Rightarrow> int \<Rightarrow> int" where
  "js_or n d = (if n = 0 then d else n)"

text \<open>\<open>xs.slice(start)\<close> with one argument: a negative start counts from the end.\<close>

definition js_slice :: "int \<Rightarrow> 'a list \<Rightarrow> 'a list" where
  "js_slice start xs =
     (if start < 0 then drop (nat (int (length xs) + start)) xs else drop (nat start) xs)"

text \<open>An optional string is truthy when it is present and not empty.\<close>

fun truthy_str :: "string option \<Rightarrow> bool" where
  "truthy_str None = False"
| "truthy_str (Some s) = (s \<noteq> [])"

section \<open>Data model (models/conversation.js)\<close>

text \<open>
  Dates are milliseconds since the epoch. The \<open>metadata\<close> maps of messages and
  conversations and the \<open>identificationState\<close> block are not read by any operation
  modelled here and are left out.
\<close>

record message =
  msg_id :: "string option"
  role :: string
  content :: string
  timestamp :: int
  channel :: string

record ident =
  id_type :: string
  id_value :: string
  addedAt :: int
  verified :: bool
  verifiedAt :: "int option"
  priority :: int

record userInfo =
  userId :: "string option"
  firstName :: "string option"
  lastName :: "string option"
  u_email :: "string option"
  u_phone :: "string option"

record summary =
  summary_text :: "string option"
  createdAt :: int
  lastMessageId :: "string option"
  messageCount :: nat
  modelUsed :: "string option"

record conversation =
  conv_id :: string
  identifiers :: "ident list"
  conv_userInfo :: "userInfo option"
  lastUpdated :: int
  lastActivity :: int
  messages :: "message list"
  previousResponseId :: "string option"
  conv_channel :: string
  conv_summary :: "summary option"

section \<open>Configuration (config/index.js)\<close>

record config =
  openai_model :: string
  openai_summaryModel :: string
  maxHistoryMessages :: int
  summary_minMessageCount :: int
  summary_recentMessageCount :: int
  summary_enabled :: bool
  mainSystemPrompt :: string

section \<open>Model backend\<close>

text \<open>
  An item of a request's \<open>input\<close> is a role/content pair (\<open>Turn\<close>, or \<open>DataTurn\<close>
  when the content is copied from a tool result and may be any value), a function-call
  record (call id, name, arguments) or a function-call output (call id, an optional
  name, output). A response carries \<open>output\<close> items: messages with their content
  parts, function-call intents, or items of another type; \<open>input\<close>, \<open>tools\<close> and
  \<open>model\<close> may be absent from it.
\<close>

datatype input_item =
    Turn string string
  | DataTurn string js
  | FunctionCallRecord string string js
  | FunctionCallOutput string "string option" js

datatype content_item = ContentItem (c_type: string) (c_text: string)

record tool_call =
  tc_call_id :: string
  tc_name :: string
  tc_arguments :: js

datatype output_item =
    MessageItem "content_item list"
  | FunctionCall tool_call
  | OtherItem string

record response =
  resp_id :: "string option"
  resp_output :: "output_item list option"
  resp_input :: "input_item list option"
  resp_model :: "string option"
  resp_tools :: "js list option"

record request =
  req_model :: string
  req_input :: "input_item list"
  req_previous_response_id :: "string option"
  req_tools :: "js list option"

text \<open>
  \<open>openaiService.getOpenAIClient\<close> as the summary service sees it: the method may be
  missing, it may return nothing, or it returns a client whose
  \<open>responses.create\<close> answers or throws.
\<close>

datatype client_access =
    NoGetter
  | NullClient
  | Client "request \<Rightarrow> error + response"

section \<open>Summary service (services/summary-service.js)\<close>

text \<open>
  \<open>createSummaryPrompt\<close>: the template opens with a line break and its first sentence,
  then the user context; the fixed guidance that follows is the parameter \<open>guidance\<close>.
\<close>

definition opt_str :: "string option \<Rightarrow> string" where
  "opt_str s = (case s of Some x \<Rightarrow> x | None \<Rightarrow> [])"

definition createSummaryPrompt :: "string \<Rightarrow> conversation \<Rightarrow> string" where
  "createSummaryPrompt guidance conversation =
     (let userContext =
        (case conv_userInfo conversation of
           None \<Rightarrow> []
         | Some u \<Rightarrow>
             ''This conversation is with a user named '' @ opt_str (firstName u) @ '' ''
               @ opt_str (lastName u) @ ''.''
               @ (if truthy_str (userId u)
                  then '' Their User ID is '' @ opt_str (userId u) @ ''.'' else []))
      in [CHR 0x0A]
           @ ''    Create a concise summary of this conversation between an AI assistant and a user. ''
           @ userContext @ guidance)"

fun content_texts :: "content_item list \<Rightarrow> string" where
  "content_texts [] = []"
| "content_texts (c # cs) =
     (if c_type c = ''output_text'' then c_text c @ content_texts cs else content_texts cs)"

fun output_texts :: "output_item list \<Rightarrow> string" where
  "output_texts [] = []"
| "output_texts (MessageItem cs # xs) = content_texts cs @ output_texts xs"
| "output_texts (x # xs) = output_texts xs"

definition extractSummaryText :: "response \<Rightarrow> string option" where
  "extractSummaryText r =
     (case resp_output r of
        None \<Rightarrow> None
      | Some [] \<Rightarrow> None
      | Some out \<Rightarrow> (if output_texts out = [] then None else Some (output_texts out)))"

definition toTurn :: "message \<Rightarrow> input_item" where
  "toTurn msg = Turn (role msg) (content msg)"

record summary_env =
  se_config :: config
  se_client :: client_access
  se_guidance :: string
  se_now :: int

definition summaryModelOf :: "config \<Rightarrow> string" where
  "summaryModelOf cfg =
     (if openai_summaryModel cfg \<noteq> [] then openai_summaryModel cfg else openai_model cfg)"

definition summaryRequest :: "summary_env \<Rightarrow> conversation \<Rightarrow> request" where
  "summaryRequest env conversation =
     \<lparr>req_model = summaryModelOf (se_config env),
      req_input =
        [Turn ''system'' (createSummaryPrompt (se_guidance env) conversation)]
          @ map toTurn (messages conversation)
          @ [Turn ''user'' ''Please create a comprehensive summary of this conversation following the guidelines in the system prompt.''],
      req_previous_response_id = None,
      req_tools = None\<rparr>"

text \<open>
  \<open>generateSummary\<close> returns the new summary or \<open>null\<close>; its body is one \<open>try\<close> block
  whose \<open>catch\<close> returns \<open>null\<close>, so it never throws.
\<close>

definition generateSummary :: "summary_env \<Rightarrow> conversation \<Rightarrow> summary option" where
  "generateSummary env conversation =
     (let minMessageCount = js_or (summary_minMessageCount (se_config env)) 5 in
      if int (length (messages conversation)) < minMessageCount then None
      else case se_client env of
        NoGetter \<Rightarrow> None
      | NullClient \<Rightarrow> None
      | Client create \<Rightarrow>
          (case create (summaryRequest env conversation) of
             Inl e \<Rightarrow> None
           | Inr response \<Rightarrow>
               (case extractSummaryText response of
                  None \<Rightarrow> None
                | Some summaryText \<Rightarrow>
                    (if messages conversation = [] then None
                     else case msg_id (last (messages conversation)) of
                            None \<Rightarrow> None
                          | Some i \<Rightarrow>
                              Some \<lparr>summary_text = Some summaryText,
                                    createdAt = se_now env,
                                    lastMessageId = Some i,
                                    messageCount = length (messages conversation),
                                    modelUsed = Some (summaryModelOf (se_config env))\<rparr>))))"

section \<open>Merge engine (services/identification-service.js)\<close>

text \<open>The state of the \<open>for\<close> loop of \<open>mergeConversations\<close>.\<close>

record merge_state =
  allMessages :: "message list"
  allIdentifiers :: "ident list"
  totalMergedMessages :: nat
  primaryUserInfo :: "userInfo option"

definition samePair :: "ident \<Rightarrow> ident \<Rightarrow> bool" where
  "samePair a b = (id_type a = id_type b \<and> id_value a = id_value b)"

text \<open>The \<open>forEach\<close> over a candidate's identifiers: push those not yet present.\<close>

definition pushUnique :: "ident list \<Rightarrow> ident \<Rightarrow> ident list" where
  "pushUnique acc identifier =
     (if list_ex (\<lambda>i. samePair i identifier) acc then acc else acc @ [identifier])"

definition hasUserId :: "userInfo option \<Rightarrow> bool" where
  "hasUserId u = (case u of None \<Rightarrow> False | Some x \<Rightarrow> truthy_str (userId x))"

definition mergeStep :: "merge_state \<Rightarrow> conversation \<Rightarrow> merge_state" where
  "mergeStep st conversation =
     st\<lparr>allMessages := allMessages st @ messages conversation,
        totalMergedMessages := totalMergedMessages st + length (messages conversation),
        allIdentifiers := foldl pushUnique (allIdentifiers st) (identifiers conversation),
        primaryUserInfo :=
          (if hasUserId (conv_userInfo conversation) \<and> \<not> hasUserId (primaryUserInfo st)
           then conv_userInfo conversation else primaryUserInfo st)\<rparr>"

definition mergeLoop :: "conversation \<Rightarrow> conversation list \<Rightarrow> merge_state" where
  "mergeLoop primaryConversation conversationsToMerge =
     foldl mergeStep
       \<lparr>allMessages = messages primaryConversation,
        allIdentifiers = identifiers primaryConversation,
        totalMergedMessages = 0,
        primaryUserInfo = conv_userInfo primaryConversation\<rparr>
       conversationsToMerge"

text \<open>
  The document store: \<open>findById\<close>, \<open>save\<close> and \<open>deleteMany\<close> answer or throw.
  \<open>me_now\<close> is the \<open>new Date()\<close> written to \<open>lastUpdated\<close>.
\<close>

record merge_env =
  findById :: "string \<Rightarrow> error + conversation option"
  save :: "conversation \<Rightarrow> error + unit"
  deleteMany :: "string list \<Rightarrow> error + unit"
  me_summary :: summary_env
  me_now :: int

record merge_result =
  mr_conversation :: conversation
  mergedCount :: nat
  mergedMessages :: nat

text \<open>
  The summary step of the merge: attempted when summaries are enabled and the merged
  list has at least \<open>minMessageCount || 5\<close> messages; a \<open>null\<close> result leaves the
  conversation as it is. (\<open>generateSummary\<close> does not throw, so the \<open>catch\<close> around the
  call is never entered.)
\<close>

definition withSummary :: "summary_env \<Rightarrow> conversation \<Rightarrow> conversation" where
  "withSummary env c =
     (if summary_enabled (se_config env)
         \<and> int (length (messages c)) \<ge> js_or (summary_minMessageCount (se_config env)) 5
      then (case generateSummary env c of
              Some generatedSummary \<Rightarrow> c\<lparr>conv_summary := Some generatedSummary\<rparr>
            | None \<Rightarrow> c)
      else c)"

text \<open>
  The primary after the loop.
  \<open>allMessages.sort((a, b) => new Date(a.timestamp) - new Date(b.timestamp))\<close>:
  the runtime's sort is stable, as is \<open>sort_key\<close>.
\<close>

definition mergedPrimary :: "int \<Rightarrow> conversation \<Rightarrow> conversation list \<Rightarrow> conversation" where
  "mergedPrimary now primaryConversation conversationsToMerge =
     (let st = mergeLoop primaryConversation conversationsToMerge in
      primaryConversation
        \<lparr>conv_userInfo := primaryUserInfo st,
         messages := sort_key timestamp (allMessages st),
         identifiers := allIdentifiers st,
         lastUpdated := now\<rparr>)"

definition mergeConversations ::
  "merge_env \<Rightarrow> string \<Rightarrow> conversation list \<Rightarrow> error + merge_result" where
  "mergeConversations env primaryConversationId conversationsToMerge =
     (case findById env primaryConversationId of
        Inl e \<Rightarrow> Inl e
      | Inr None \<Rightarrow>
          Inl (Error (''Primary conversation '' @ primaryConversationId @ '' not found'') None)
      | Inr (Some primaryConversation) \<Rightarrow>
          (let final = withSummary (me_summary env)
                         (mergedPrimary (me_now env) primaryConversation
                            conversationsToMerge)
           in case save env final of
                Inl e \<Rightarrow> Inl e
              | Inr u \<Rightarrow>
                  (case deleteMany env (map conv_id conversationsToMerge) of
                     Inl e \<Rightarrow> Inl e
                   | Inr u' \<Rightarrow>
                       Inr \<lparr>mr_conversation = final,
                            mergedCount = length conversationsToMerge,
                            mergedMessages =
                              totalMergedMessages (mergeLoop primaryConversation conversationsToMerge)\<rparr>)))"

text \<open>
  The message list the specification asks for: the union without duplicates (equal
  timestamp, content and role), stably sorted by timestamp.
\<close>

definition sameMessage :: "message \<Rightarrow> message \<Rightarrow> bool" where
  "sameMessage a b = (timestamp a = timestamp b \<and> content a = content b \<and> role a = role b)"

definition spec_dedupMessages :: "message list \<Rightarrow> message list" where
  "spec_dedupMessages ms =
     foldl (\<lambda>acc m. if list_ex (sameMessage m) acc then acc else acc @ [m]) [] ms"

definition spec_mergedMessages :: "conversation \<Rightarrow> conversation list \<Rightarrow> message list" where
  "spec_mergedMessages p cs =
     sort_key timestamp (spec_dedupMessages (messages p @ concat (map messages cs)))"

section \<open>Identifiers of a conversation (models/conversation.js)\<close>

text \<open>
  \<open>addIdentifier\<close>: \<open>find\<close> returns the first identifier with the given type and value;
  the method mutates that element in place, or pushes a new one. \<open>new Date()\<close> is the
  parameter \<open>now\<close>.
\<close>

definition upgradeIdentifier :: "int \<Rightarrow> int \<Rightarrow> bool \<Rightarrow> ident \<Rightarrow> ident" where
  "upgradeIdentifier now p ver existingIdentifier =
     (let e1 = (if p > priority existingIdentifier
                then existingIdentifier\<lparr>priority := p\<rparr> else existingIdentifier)
      in if ver \<and> \<not> verified e1 then e1\<lparr>verified := True, verifiedAt := Some now\<rparr> else e1)"

fun updateFirst :: "('a \<Rightarrow> bool) \<Rightarrow> ('a \<Rightarrow> 'a) \<Rightarrow> 'a list \<Rightarrow> 'a list" where
  "updateFirst P f [] = []"
| "updateFirst P f (x # xs) = (if P x then f x # xs else x # updateFirst P f xs)"

definition isPair :: "string \<Rightarrow> string \<Rightarrow> ident \<Rightarrow> bool" where
  "isPair t v i = (id_type i = t \<and> id_value i = v)"

definition addIdentifier ::
  "int \<Rightarrow> conversation \<Rightarrow> string \<Rightarrow> string \<Rightarrow> int \<Rightarrow> bool \<Rightarrow> conversation" where
  "addIdentifier now c t v p ver =
     (case find (isPair t v) (identifiers c) of
        Some existingIdentifier \<Rightarrow>
          c\<lparr>identifiers := updateFirst (isPair t v) (upgradeIdentifier now p ver) (identifiers c),
            lastUpdated := now\<rparr>
      | None \<Rightarrow>
          c\<lparr>identifiers := identifiers c @
               [\<lparr>id_type = t, id_value = v, addedAt = now, verified = ver,
                 verifiedAt = (if ver then Some now else None), priority = p\<rparr>],
            lastUpdated := now\<rparr>)"

text \<open>A call of \<open>addIdentifier\<close>: type, value, priority, verified, and the time of the call.\<close>

record add_call =
  ac_type :: string
  ac_value :: string
  ac_priority :: int
  ac_verified :: bool
  ac_now :: int

definition applyCall :: "conversation \<Rightarrow> add_call \<Rightarrow> conversation" where
  "applyCall c a = addIdentifier (ac_now a) c (ac_type a) (ac_value a) (ac_priority a) (ac_verified a)"

definition addIdentifiers :: "conversation \<Rightarrow> add_call list \<Rightarrow> conversation" where
  "addIdentifiers c calls = foldl applyCall c calls"

definition pairs :: "conversation \<Rightarrow> (string \<times> string) list" where
  "pairs c = map (\<lambda>i. (id_type i, id_value i)) (identifiers c)"

section \<open>Identifier matcher (identification-service.js, tools-executor.js, message-processor.js)\<close>

text \<open>
  A string is the list of the bytes of its UTF-8 encoding. The \<open>length\<close> of a
  JavaScript string counts UTF-16 code units: one for every character of one to three
  bytes, two for a character of four bytes (\<open>js_length\<close>). On a string of ASCII
  characters, such as a string of digits, it is the number of bytes. \<open>\d\<close> is an ASCII
  digit.
\<close>

definition isContinuation :: "char \<Rightarrow> bool" where
  "isContinuation c = (digit7 c \<and> \<not> digit6 c)"

definition isLead4 :: "char \<Rightarrow> bool" where
  "isLead4 c = (digit7 c \<and> digit6 c \<and> digit5 c \<and> digit4 c)"

definition js_length :: "string \<Rightarrow> nat" where
  "js_length s = length (filter (\<lambda>c. \<not> isContinuation c) s) + length (filter isLead4 s)"

text \<open>
  White space, as the class \<open>\s\<close> of regular expressions and \<open>trim\<close> have it: tab,
  line feed, vertical tab, form feed, carriage return, space, U+00A0, U+1680, U+2000 to
  U+200A, U+2028, U+2029, U+202F, U+205F, U+3000 and U+FEFF, each in UTF-8.
\<close>

definition whiteSpace :: "string list" where
  "whiteSpace =
     [[CHR 0x09], [CHR 0x0A], [CHR 0x0B], [CHR 0x0C], [CHR 0x0D], [CHR 0x20],
      [CHR 0xC2, CHR 0xA0], [CHR 0xE1, CHR 0x9A, CHR 0x80],
      [CHR 0xE2, CHR 0x80, CHR 0x80], [CHR 0xE2, CHR 0x80, CHR 0x81],
      [CHR 0xE2, CHR 0x80, CHR 0x82], [CHR 0xE2, CHR 0x80, CHR 0x83],
      [CHR 0xE2, CHR 0x80, CHR 0x84], [CHR 0xE2, CHR 0x80, CHR 0x85],
      [CHR 0xE2, CHR 0x80, CHR 0x86], [CHR 0xE2, CHR 0x80, CHR 0x87],
      [CHR 0xE2, CHR 0x80, CHR 0x88], [CHR 0xE2, CHR 0x80, CHR 0x89],
      [CHR 0xE2, CHR 0x80, CHR 0x8A], [CHR 0xE2, CHR 0x80, CHR 0xA8],
      [CHR 0xE2, CHR 0x80, CHR 0xA9], [CHR 0xE2, CHR 0x80, CHR 0xAF],
      [CHR 0xE2, CHR 0x81, CHR 0x9F], [CHR 0xE3, CHR 0x80, CHR 0x80],
      [CHR 0xEF, CHR 0xBB, CHR 0xBF]]"

text \<open>
  The number of bytes of the white-space character (of one of the given byte patterns)
  that a string starts with, or 0. \<open>stripLeading\<close> drops such characters from the
  start, \<open>removeSpaces\<close> drops them everywhere; the counter is the number of bytes
  still to skip of the character being dropped.
\<close>

definition spaceAtStart :: "string list \<Rightarrow> string \<Rightarrow> nat" where
  "spaceAtStart ws s =
     (case find (\<lambda>w. take (length w) s = w) ws of Some w \<Rightarrow> length w | None \<Rightarrow> 0)"

fun stripLeading :: "string list \<Rightarrow> nat \<Rightarrow> string \<Rightarrow> string" where
  "stripLeading ws k [] = []"
| "stripLeading ws k (c # cs) =
     (if k > 0 then stripLeading ws (k - 1) cs
      else if spaceAtStart ws (c # cs) > 0
      then stripLeading ws (spaceAtStart ws (c # cs) - 1) cs
      else c # cs)"

fun removeSpaces :: "nat \<Rightarrow> string \<Rightarrow> string" where
  "removeSpaces k [] = []"
| "removeSpaces k (c # cs) =
     (if k > 0 then removeSpaces (k - 1) cs
      else if spaceAtStart whiteSpace (c # cs) > 0
      then removeSpaces (spaceAtStart whiteSpace (c # cs) - 1) cs
      else c # removeSpaces 0 cs)"

text \<open>\<open>s.trim()\<close>: white space is dropped from both ends.\<close>

definition trim :: "string \<Rightarrow> string" where
  "trim s = rev (stripLeading (map rev whiteSpace) 0 (rev (stripLeading whiteSpace 0 s)))"

definition isDigit :: "char \<Rightarrow> bool" where
  "isDigit c = (c \<in> set ''0123456789'')"

definition startsWith :: "string \<Rightarrow> string \<Rightarrow> bool" where
  "startsWith s p = (take (length p) s = p)"

text \<open>\<open>[...new Set(xs)]\<close>: the first occurrence of each element, in order.\<close>

fun uniq :: "'a list \<Rightarrow> 'a list" where
  "uniq [] = []"
| "uniq (x # xs) = x # uniq (removeAll x xs)"

definition normalizePhoneNumber :: "string \<Rightarrow> string" where
  "normalizePhoneNumber phone = filter (\<lambda>c. isDigit c \<or> c = CHR ''+'') phone"

definition generatePhoneVariations :: "string \<Rightarrow> string list" where
  "generatePhoneVariations phone =
     (let cleaned = filter isDigit phone;
          v1 = [phone] @ (if cleaned \<noteq> phone then [cleaned] else []);
          v2 = v1 @ (if \<not> startsWith phone ''+''
                     then (if startsWith cleaned ''0'' \<and> length cleaned = 11
                           then [''+44'' @ drop 1 cleaned] else [])
                          @ (if length cleaned = 10 then [''+1'' @ cleaned] else [])
                     else []);
          v3 = v2 @ (if startsWith phone ''+44'' \<and> js_length phone > 3
                     then [''0'' @ drop 3 phone] else []);
          v4 = v3 @ (if startsWith phone ''+1'' \<and> js_length phone > 2
                     then [drop 2 phone] else [])
      in uniq v4)"

text \<open>
  The matching key of both channels: \<open>value.replace(/\D/g, '').slice(-9)\<close>, the last nine
  digits.
\<close>

definition matchDigits :: "string \<Rightarrow> string" where
  "matchDigits phoneNumber = js_slice (-9) (filter isDigit phoneNumber)"

text \<open>
  The query \<open>{_id: {$ne: current}, identifiers: {$elemMatch: {type: t, value: {$regex:
  key + '$'}}}}\<close> on a snapshot of the collection. The key holds digits only, so the
  regular expression selects the values that end with the key.
\<close>

definition endsWithKey :: "string \<Rightarrow> string \<Rightarrow> conversation \<Rightarrow> bool" where
  "endsWithKey t key c = list_ex (\<lambda>i. id_type i = t \<and> suffix key (id_value i)) (identifiers c)"

definition findByPhoneEnding ::
  "conversation list \<Rightarrow> string \<Rightarrow> string \<Rightarrow> string \<Rightarrow> conversation list" where
  "findByPhoneEnding docs current t key =
     filter (\<lambda>c. conv_id c \<noteq> current \<and> endsWithKey t key c) docs"

text \<open>
  The lookup of the tool \<open>searchPreviousConversations\<close> (browser channel) and the
  auto-merge lookup of \<open>processWhatsAppMessage\<close> (messaging channel). The tool answers
  without a search (\<open>None\<close>) when the number has fewer than seven digits or the context
  carries no conversation id.
\<close>

definition searchLookup ::
  "conversation list \<Rightarrow> string option \<Rightarrow> string \<Rightarrow> conversation list option" where
  "searchLookup docs currentConversationId phoneNumber =
     (if length (filter isDigit phoneNumber) < 7 then None
      else case currentConversationId of
             None \<Rightarrow> None
           | Some current \<Rightarrow>
               if current = [] then None
               else Some (findByPhoneEnding docs current ''whatsapp_phone''
                            (matchDigits phoneNumber)))"

definition autoMergeLookup :: "conversation list \<Rightarrow> string \<Rightarrow> string \<Rightarrow> conversation list" where
  "autoMergeLookup docs currentConversationId cleanPhoneNumber =
     findByPhoneEnding docs currentConversationId ''phone'' (matchDigits cleanPhoneNumber)"

text \<open>
  \<open>findConversationsByPhones\<close>: the conversations holding an identifier of type
  \<open>whatsapp_phone\<close> or \<open>phone\<close> whose value is one of the variations.
\<close>

definition findConversationsByPhones ::
  "conversation list \<Rightarrow> string list \<Rightarrow> string option \<Rightarrow> conversation list" where
  "findConversationsByPhones docs phoneNumbers excludeConversationId =
     (if phoneNumbers = [] then []
      else let allVariations = concat (map generatePhoneVariations phoneNumbers)
           in filter (\<lambda>c. (case excludeConversationId of
                               None \<Rightarrow> True
                             | Some x \<Rightarrow> x = [] \<or> conv_id c \<noteq> x)
                          \<and> list_ex (\<lambda>i. (id_type i = ''whatsapp_phone'' \<or> id_type i = ''phone'')
                                          \<and> id_value i \<in> set allVariations) (identifiers c))
                  docs)"

text \<open>
  \<open>formatPhoneToE164\<close> (message-processor.js). \<open>replace('whatsapp:', '')\<close> removes the
  first occurrence of the prefix text; the final \<open>replace(/[\s\-\(\)]/g, '')\<close> drops
  white space, dashes and parentheses. The \<open>length\<close> is read only of a string of digits.
\<close>

fun removeFirst :: "string \<Rightarrow> string \<Rightarrow> string" where
  "removeFirst pat [] = []"
| "removeFirst pat (c # cs) =
     (if pat \<noteq> [] \<and> take (length pat) (c # cs) = pat then drop (length pat) (c # cs)
      else c # removeFirst pat cs)"

definition formatPhoneToE164 :: "string option \<Rightarrow> string option" where
  "formatPhoneToE164 phoneNumber =
     (case phoneNumber of
        None \<Rightarrow> None
      | Some [] \<Rightarrow> None
      | Some p \<Rightarrow>
          (let f0 = removeFirst ''whatsapp:'' p;
               f1 = (if \<not> startsWith f0 ''+''
                     then (if startsWith f0 ''0'' then ''+44'' @ drop 1 f0
                           else if \<not> (f0 \<noteq> [] \<and> list_all isDigit f0) \<or> length f0 < 9 then f0
                           else ''+44'' @ f0)
                     else f0)
           in Some (filter (\<lambda>c. \<not> (c = CHR ''-'' \<or> c = CHR ''('' \<or> c = CHR '')''))
                      (removeSpaces 0 f1))))"

section \<open>Context assembler (message-processor.js, openai-service.js)\<close>

text \<open>
  The history handed to \<open>processMessage\<close> is a list of role/content pairs. With
  summaries enabled and a summary text present it opens with one system turn carrying
  the summary, followed by \<open>messages.slice(-(recentMessageCount || 20))\<close>; otherwise
  it is \<open>messages.slice(-(maxHistoryMessages || 10))\<close>.
\<close>

type_synonym turn = "string \<times> string"

definition toPair :: "message \<Rightarrow> turn" where
  "toPair msg = (role msg, content msg)"

definition summaryText :: "conversation \<Rightarrow> string option" where
  "summaryText conversation =
     (case conv_summary conversation of
        None \<Rightarrow> None
      | Some s \<Rightarrow> (if truthy_str (summary_text s) then summary_text s else None))"

definition summaryTurn :: "string \<Rightarrow> turn" where
  "summaryTurn t =
     (''system'',
      ''CONVERSATION SUMMARY: '' @ t @ [CHR 0x0A, CHR 0x0A]
        @ ''The above is a summary of previous messages. The following are the most recent messages.'')"

definition assembleHistory :: "config \<Rightarrow> conversation \<Rightarrow> turn list" where
  "assembleHistory cfg conversation =
     (case (if summary_enabled cfg then summaryText conversation else None) of
        Some t \<Rightarrow>
          summaryTurn t
            # map toPair (js_slice (- (js_or (summary_recentMessageCount cfg) 20)) (messages conversation))
      | None \<Rightarrow>
          map toPair (js_slice (- (js_or (maxHistoryMessages cfg) 10)) (messages conversation)))"

definition joinWith :: "string \<Rightarrow> string list \<Rightarrow> string" where
  "joinWith sep xs = (case xs of [] \<Rightarrow> [] | y # ys \<Rightarrow> foldl (\<lambda>acc x. acc @ sep @ x) y ys)"

definition constructUserContext :: "userInfo \<Rightarrow> string" where
  "constructUserContext u =
     joinWith '' ''
       ([''USER CONTEXT:'']
        @ (if truthy_str (firstName u) \<or> truthy_str (lastName u)
           then [''You are speaking with '' @ trim (opt_str (firstName u) @ '' '' @ opt_str (lastName u)) @ ''.'',
                 ''Greet them by name when appropriate.'']
           else [])
        @ (if truthy_str (u_phone u) then [''Their phone number is '' @ opt_str (u_phone u) @ ''.''] else [])
        @ (if truthy_str (u_email u) then [''Their email is '' @ opt_str (u_email u) @ ''.''] else [])
        @ [''DO NOT ask for information you already have.''])"

text \<open>
  \<open>processMessage\<close> builds the request: the main system prompt (preceded by the user
  context when user information is given), the history, and the current user message
  last. \<open>responses.create\<close> is the parameter \<open>create\<close>; its error is rethrown.
\<close>

definition systemPromptFor :: "config \<Rightarrow> userInfo option \<Rightarrow> string" where
  "systemPromptFor cfg u =
     (case u of
        None \<Rightarrow> mainSystemPrompt cfg
      | Some x \<Rightarrow> constructUserContext x @ [CHR 0x0A, CHR 0x0A] @ mainSystemPrompt cfg)"

definition processMessage_input ::
  "config \<Rightarrow> string \<Rightarrow> turn list \<Rightarrow> userInfo option \<Rightarrow> input_item list" where
  "processMessage_input cfg msg history u =
     [Turn ''system'' (systemPromptFor cfg u)]
       @ map (\<lambda>h. Turn (fst h) (snd h)) history
       @ [Turn ''user'' msg]"

definition processMessage_request ::
  "config \<Rightarrow> string \<Rightarrow> turn list \<Rightarrow> userInfo option \<Rightarrow> string option \<Rightarrow> js list \<Rightarrow> request" where
  "processMessage_request cfg msg history u previous tools =
     \<lparr>req_model = openai_model cfg,
      req_input = processMessage_input cfg msg history u,
      req_previous_response_id = (if truthy_str previous then previous else None),
      req_tools = (if tools \<noteq> [] then Some tools else None)\<rparr>"

definition processMessage ::
  "(request \<Rightarrow> error + response) \<Rightarrow> config \<Rightarrow> string \<Rightarrow> turn list \<Rightarrow> userInfo option
     \<Rightarrow> string option \<Rightarrow> js list \<Rightarrow> error + response" where
  "processMessage create cfg msg history u previous tools =
     create (processMessage_request cfg msg history u previous tools)"

section \<open>Tool executor (services/tools-executor.js)\<close>

text \<open>
  The runtime's \<open>JSON.parse\<close> (which may throw), \<open>JSON.stringify\<close> on tree values,
  the conversion of a value to a string as in a template literal, and \<open>Date.now()\<close>
  rendered as text are parameters.
\<close>

record runtime =
  json_parse :: "string \<Rightarrow> error + js"
  json_stringify :: "js \<Rightarrow> string"
  js_string :: "js \<Rightarrow> string"
  date_now :: string

text \<open>
  A handler is given the parsed arguments and the execution context. It returns a
  value, returns an object that \<open>JSON.stringify\<close> rejects with the given message,
  throws a value with its message and code (an \<open>Error\<close>; a thrown string or number has
  neither), or throws \<open>null\<close> or \<open>undefined\<close>.
\<close>

datatype handler_outcome = Returned js | Unserializable string | Threw error | ThrewNull

type_synonym handler = "js \<Rightarrow> js \<Rightarrow> handler_outcome"

datatype validation = Valid | Invalid string "string option"

definition envelope :: "string \<Rightarrow> string \<Rightarrow> string option \<Rightarrow> js" where
  "envelope msg code user_message =
     JObj ([(''success'', JBool False), (''error'', JBool True),
            (''message'', JStr msg), (''code'', JStr code)]
           @ (case user_message of None \<Rightarrow> [] | Some u \<Rightarrow> [(''user_message'', JStr u)]))"

definition isStringValue :: "js \<Rightarrow> bool" where
  "isStringValue v = (typeof v = ''string'')"

definition str_of :: "js \<Rightarrow> string" where
  "str_of v = (case v of JStr s \<Rightarrow> s | _ \<Rightarrow> [])"

text \<open>
  The object literal defines \<open>validateToolArguments\<close>, \<open>validateGetCurrentTimeArgs\<close> and
  \<open>validateQueryKnowledgeBaseArgs\<close> twice; the later definitions are the ones in
  force. Every number of the model is an integer, so \<open>Number.isInteger\<close> holds of it.
\<close>

definition validateGetCurrentTimeArgs :: "js \<Rightarrow> validation" where
  "validateGetCurrentTimeArgs args =
     (let tz = js_get args ''timezone'' in
      if tz \<noteq> JUndefined then
        (if \<not> isStringValue tz
         then Invalid ''Timezone must be a string'' (Some ''Invalid timezone format specified.'')
         else if js_length (str_of tz) > 50
         then Invalid ''Timezone string too long'' (Some ''Timezone specification too long.'')
         else Valid)
      else Valid)"

definition validContentTypes :: "string list" where
  "validContentTypes = [''service'', ''policy'', ''faq'', ''location'', ''general'']"

definition validateQueryKnowledgeBaseArgs :: "js \<Rightarrow> validation" where
  "validateQueryKnowledgeBaseArgs args =
     (let text = js_get args ''text'';
          category = js_get args ''category'';
          tag = js_get args ''tag'';
          contentType = js_get args ''contentType'';
          limit = js_get args ''limit'';
          hasText = (truthy text \<and> isStringValue text \<and> trim (str_of text) \<noteq> []);
          hasCategory = (truthy category \<and> isStringValue category);
          hasTag = (truthy tag \<and> isStringValue tag);
          hasContentType = (truthy contentType \<and> isStringValue contentType)
      in if \<not> hasText \<and> \<not> hasCategory \<and> \<not> hasTag \<and> \<not> hasContentType
         then Invalid ''At least one search parameter required''
                (Some ''I need something to search for in the knowledge base.'')
         else if truthy text \<and> isStringValue text \<and> js_length (str_of text) > 500
         then Invalid ''Search text too long (max 500 characters)''
                (Some ''Your search query is too long. Please make it more concise.'')
         else if limit \<noteq> JUndefined \<and> typeof limit \<noteq> ''number''
         then Invalid ''Limit must be an integer'' (Some ''Invalid search limit specified.'')
         else if limit \<noteq> JUndefined \<and> (case limit of JNum n \<Rightarrow> n < 1 \<or> n > 20 | _ \<Rightarrow> False)
         then Invalid ''Limit must be between 1 and 20''
                (Some ''Search limit must be between 1 and 20 results.'')
         else if truthy contentType
                 \<and> \<not> (isStringValue contentType \<and> str_of contentType \<in> set validContentTypes)
         then Invalid (''Invalid contentType. Must be one of: '' @ joinWith '', '' validContentTypes)
                (Some ''Invalid content type specified for search.'')
         else Valid)"

definition validateToolArguments :: "string \<Rightarrow> js \<Rightarrow> validation" where
  "validateToolArguments toolName args =
     (if toolName = ''getCurrentTime'' then validateGetCurrentTimeArgs args
      else if toolName = ''queryKnowledgeBase'' then validateQueryKnowledgeBaseArgs args
      else Valid)"

text \<open>
  The result of \<open>executeTool\<close> when it resolves: the string, and the handler
  invocations it made (tool name and parsed arguments).
\<close>

record tool_run =
  tr_output :: string
  tr_invoked :: "(string \<times> js) list"

definition parseArguments :: "runtime \<Rightarrow> js \<Rightarrow> error + js" where
  "parseArguments rt argsString =
     (case argsString of JStr s \<Rightarrow> json_parse rt s | v \<Rightarrow> Inr v)"

definition or_str :: "string \<Rightarrow> string \<Rightarrow> string" where
  "or_str a b = (if a \<noteq> [] then a else b)"

text \<open>
  The outer \<open>catch\<close> of \<open>executeTool\<close>; its replacer drops keys the envelope does not
  have.
\<close>

definition executionError :: "runtime \<Rightarrow> error \<Rightarrow> string" where
  "executionError rt e =
     json_stringify rt
       (envelope (or_str (err_message e) ''Tool execution failed'')
          (or_str (opt_str (err_code e)) ''EXECUTION_ERROR'')
          (Some ''I encountered an error while processing your request. Please try again or provide more information.''))"

text \<open>
  What the call of the handler and the formatting of its result come to: the string
  returned, or the error with which \<open>executeTool\<close> rejects. A throw of the handler is
  caught; the \<open>catch\<close> reads \<open>error.message\<close>, which throws in its turn when the value
  thrown is \<open>null\<close> or \<open>undefined\<close>. A string is returned as it is; \<open>JSON.stringify\<close>
  gives no string for \<open>undefined\<close>, and the read of its \<open>length\<close> throws, inside the
  \<open>try\<close>.
\<close>

definition handlerOutput :: "runtime \<Rightarrow> handler_outcome \<Rightarrow> error + string" where
  "handlerOutput rt outcome =
     (case outcome of
        Threw e \<Rightarrow> Inr (executionError rt e)
      | ThrewNull \<Rightarrow> Inl (Error ''Cannot read properties of null (reading 'message')'' None)
      | Unserializable m \<Rightarrow>
          Inr (json_stringify rt
                 (envelope (''Error formatting result: '' @ m) ''RESULT_FORMAT_ERROR''
                    (Some ''I processed your request but encountered an error with the result. Please try again.'')))
      | Returned (JStr r) \<Rightarrow> Inr r
      | Returned JUndefined \<Rightarrow>
          Inr (executionError rt
                 (Error ''Cannot read properties of undefined (reading 'length')'' None))
      | Returned r \<Rightarrow> Inr (json_stringify rt r))"

text \<open>
  \<open>executeTool(toolCall, context = {})\<close>. A tool call is an object, as the items of a
  reply's output are. Before the \<open>try\<close> block the source logs \<open>Object.keys(context)\<close>:
  an absent context is \<open>{}\<close>, a \<open>null\<close> context makes the call reject there.
\<close>

definition contextOrDefault :: "js \<Rightarrow> js" where
  "contextOrDefault context = (if context = JUndefined then JObj [] else context)"

definition executeTool ::
  "runtime \<Rightarrow> (string \<Rightarrow> handler option) \<Rightarrow> tool_call \<Rightarrow> js \<Rightarrow> error + tool_run" where
  "executeTool rt toolRegistry toolCall context =
     (if context = JNull then Inl (Error ''Cannot convert undefined or null to object'' None)
      else case toolRegistry (tc_name toolCall) of
        None \<Rightarrow>
          Inr \<lparr>tr_output = json_stringify rt
                (envelope (''No handler registered for tool: '' @ tc_name toolCall) ''UNKNOWN_TOOL'' None),
               tr_invoked = []\<rparr>
      | Some handler \<Rightarrow>
          (case parseArguments rt (tc_arguments toolCall) of
             Inl parseError \<Rightarrow>
               Inr \<lparr>tr_output = json_stringify rt
                     (envelope (''Invalid arguments: '' @ err_message parseError) ''INVALID_ARGUMENTS''
                        (Some ''I couldn't process your request due to an error. Please try again with clearer information.'')),
                    tr_invoked = []\<rparr>
           | Inr args \<Rightarrow>
               if \<not> truthy args \<or> typeof args \<noteq> ''object'' then
                 Inr \<lparr>tr_output = json_stringify rt
                       (envelope ''Arguments must be an object'' ''INVALID_ARGUMENTS_STRUCTURE''
                          (Some ''I couldn't process your request due to invalid parameters.'')),
                      tr_invoked = []\<rparr>
               else
                 (case validateToolArguments (tc_name toolCall) args of
                    Invalid err userMessage \<Rightarrow>
                      Inr \<lparr>tr_output = json_stringify rt
                            (envelope err ''INVALID_TOOL_ARGUMENTS''
                               (Some (or_str (opt_str userMessage)
                                        ''I couldn't process your request due to invalid parameters.''))),
                           tr_invoked = []\<rparr>
                  | Valid \<Rightarrow>
                      (case handlerOutput rt (handler args (contextOrDefault context)) of
                         Inl e \<Rightarrow> Inl e
                       | Inr out \<Rightarrow>
                           Inr \<lparr>tr_output = out, tr_invoked = [(tc_name toolCall, args)]\<rparr>))))"

section \<open>Round-trip driver (openai-service.js)\<close>

text \<open>
  \<open>processFunctionCalls\<close> is given the tool executor as a function that resolves to a
  value or throws. The calls are started in the order of the reply and
  \<open>Promise.all\<close> keeps that order, so the executions are a \<open>map\<close> over the calls.
\<close>

type_synonym tool_executor = "tool_call \<Rightarrow> js \<Rightarrow> error + js"

record function_result =
  fr_call_id :: string
  fr_name :: string
  fr_result :: js

fun functionCallsOf :: "output_item list \<Rightarrow> tool_call list" where
  "functionCallsOf [] = []"
| "functionCallsOf (FunctionCall c # xs) = c # functionCallsOf xs"
| "functionCallsOf (x # xs) = functionCallsOf xs"

definition errorResult :: "runtime \<Rightarrow> error \<Rightarrow> js" where
  "errorResult rt e =
     JStr (json_stringify rt (JObj [(''error'', JBool True), (''message'', JStr (err_message e))]))"

definition runCall :: "runtime \<Rightarrow> tool_executor \<Rightarrow> js \<Rightarrow> tool_call \<Rightarrow> function_result" where
  "runCall rt toolExecutor context functionCall =
     \<lparr>fr_call_id = tc_call_id functionCall,
      fr_name = tc_name functionCall,
      fr_result = (case toolExecutor functionCall context of
                     Inr r \<Rightarrow> r
                   | Inl e \<Rightarrow> errorResult rt e)\<rparr>"

definition callWithOutput :: "function_result list \<Rightarrow> tool_call \<Rightarrow> input_item list" where
  "callWithOutput functionResults functionCall =
     FunctionCallRecord (tc_call_id functionCall) (tc_name functionCall) (tc_arguments functionCall)
       # (case find (\<lambda>r. fr_call_id r = tc_call_id functionCall) functionResults of
            Some resultEntry \<Rightarrow>
              [FunctionCallOutput (tc_call_id functionCall) None (fr_result resultEntry)]
          | None \<Rightarrow> [])"

text \<open>
  The loop over the results: a result that is a string is parsed (a parse error skips
  the entry); a successful \<open>createUser\<close> is noted, a \<open>system_instruction\<close> is
  collected, and the context of a successful knowledge lookup is pushed as a system
  turn. The bookkeeping on the \<open>context\<close> argument is not observable by the callers in
  this repository, which pass none, and is left out.
\<close>

record scan_state =
  sc_pushed :: "input_item list"
  systemInstructions :: "js list"
  hasUserCreation :: bool
  newUserInfo :: "js option"

definition js_or_val :: "js \<Rightarrow> js \<Rightarrow> js" where
  "js_or_val a b = (if truthy a then a else b)"

definition resultDataOf :: "runtime \<Rightarrow> js \<Rightarrow> error + js" where
  "resultDataOf rt r = (case r of JStr s \<Rightarrow> json_parse rt s | v \<Rightarrow> Inr v)"

definition scanResult :: "runtime \<Rightarrow> scan_state \<Rightarrow> function_result \<Rightarrow> scan_state" where
  "scanResult rt st resultEntry =
     (case resultDataOf rt (fr_result resultEntry) of
        Inl e \<Rightarrow> st
      | Inr resultData \<Rightarrow>
          (let created = (fr_name resultEntry = ''createUser'' \<and> truthy resultData
                          \<and> truthy (js_get resultData ''success''));
               user = js_get resultData ''user'';
               st1 = (if created
                      then st\<lparr>hasUserCreation := True,
                              newUserInfo :=
                                (if truthy user
                                 then Some (JObj [(''userId'', js_or_val (js_get user ''userId'') (js_get user ''id'')),
                                                  (''firstName'', js_get user ''firstName''),
                                                  (''lastName'', js_get user ''lastName'')])
                                 else newUserInfo st)\<rparr>
                      else st);
               st2 = (if truthy resultData \<and> truthy (js_get resultData ''system_instruction'')
                      then st1\<lparr>systemInstructions :=
                                 systemInstructions st1 @ [js_get resultData ''system_instruction'']\<rparr>
                      else st1)
           in if fr_name resultEntry = ''queryKnowledgeBase'' \<and> truthy resultData
                 \<and> truthy (js_get resultData ''success'')
                 \<and> truthy (js_get resultData ''knowledgeFound'')
                 \<and> truthy (js_get resultData ''context'')
              then st2\<lparr>sc_pushed := sc_pushed st2 @ [DataTurn ''system'' (js_get resultData ''context'')]\<rparr>
              else st2))"

definition scanResults :: "runtime \<Rightarrow> function_result list \<Rightarrow> scan_state" where
  "scanResults rt functionResults =
     foldl (scanResult rt)
       \<lparr>sc_pushed = [], systemInstructions = [], hasUserCreation = False, newUserInfo = None\<rparr>
       functionResults"

definition instructionTurns :: "runtime \<Rightarrow> js list \<Rightarrow> input_item list" where
  "instructionTurns rt instrs =
     (if instrs \<noteq> []
      then [Turn ''system'' (joinWith [CHR 0x0A, CHR 0x0A] (map (js_string rt) instrs)),
            Turn ''user'' ''Please acknowledge and continue with the conversation.'']
      else [])"

definition originalInput :: "response \<Rightarrow> input_item list" where
  "originalInput r = (case resp_input r of Some xs \<Rightarrow> xs | None \<Rightarrow> [])"

definition functionResultsOf ::
  "runtime \<Rightarrow> tool_executor \<Rightarrow> js \<Rightarrow> tool_call list \<Rightarrow> function_result list" where
  "functionResultsOf rt toolExecutor context functionCalls =
     map (runCall rt toolExecutor context) functionCalls"

definition followUpInput ::
  "runtime \<Rightarrow> response \<Rightarrow> tool_executor \<Rightarrow> js \<Rightarrow> input_item list" where
  "followUpInput rt r toolExecutor context =
     (let functionCalls = functionCallsOf (case resp_output r of Some out \<Rightarrow> out | None \<Rightarrow> []);
          functionResults = functionResultsOf rt toolExecutor context functionCalls;
          st = scanResults rt functionResults
      in originalInput r
           @ concat (map (callWithOutput functionResults) functionCalls)
           @ sc_pushed st
           @ instructionTurns rt (systemInstructions st))"

definition followUpRequest ::
  "runtime \<Rightarrow> config \<Rightarrow> response \<Rightarrow> tool_executor \<Rightarrow> js \<Rightarrow> request" where
  "followUpRequest rt cfg r toolExecutor context =
     \<lparr>req_model = or_str (opt_str (resp_model r)) (openai_model cfg),
      req_input = followUpInput rt r toolExecutor context,
      req_previous_response_id = (if truthy_str (resp_id r) then resp_id r else None),
      req_tools = resp_tools r\<rparr>"

definition textResponse :: "string \<Rightarrow> string \<Rightarrow> response" where
  "textResponse rid t =
     \<lparr>resp_id = Some rid,
      resp_output = Some [MessageItem [ContentItem ''output_text'' t]],
      resp_input = None, resp_model = None, resp_tools = None\<rparr>"

definition hasVisibleText :: "output_item \<Rightarrow> bool" where
  "hasVisibleText item =
     (case item of
        MessageItem cs \<Rightarrow>
          list_ex (\<lambda>c. c_type c = ''output_text'' \<and> c_text c \<noteq> [] \<and> trim (c_text c) \<noteq> []) cs
      | _ \<Rightarrow> False)"

definition replyIsEmpty :: "response \<Rightarrow> bool" where
  "replyIsEmpty r =
     (case resp_output r of
        None \<Rightarrow> True
      | Some out \<Rightarrow> out = [] \<or> \<not> list_ex hasVisibleText out)"

definition userCreationFallback :: "runtime \<Rightarrow> js option \<Rightarrow> response" where
  "userCreationFallback rt info =
     textResponse (''user_creation_fallback_'' @ date_now rt)
       ((case info of
           None \<Rightarrow> ''Thank you! I've successfully created your profile.''
         | Some u \<Rightarrow>
             (if truthy (js_get u ''firstName'')
              then ''Thank you, '' @ js_string rt (js_get u ''firstName'')
                     @ ''! I've successfully created your profile.''
              else ''Thank you! I've successfully created your profile.''))
        @ '' How else can I assist you today?'')"

definition errorFallback :: "runtime \<Rightarrow> response" where
  "errorFallback rt =
     textResponse (''error_fallback_'' @ date_now rt)
       ''I experienced an error processing your request. Can you please try again?''"

definition processFunctionCalls ::
  "runtime \<Rightarrow> config \<Rightarrow> (request \<Rightarrow> error + response) \<Rightarrow> response \<Rightarrow> tool_executor \<Rightarrow> js
     \<Rightarrow> response" where
  "processFunctionCalls rt cfg create r toolExecutor context =
     (case resp_output r of
        None \<Rightarrow> r
      | Some [] \<Rightarrow> r
      | Some out \<Rightarrow>
          (case create (followUpRequest rt cfg r toolExecutor context) of
             Inl e \<Rightarrow> errorFallback rt
           | Inr finalResponse \<Rightarrow>
               (let st = scanResults rt
                           (functionResultsOf rt toolExecutor context (functionCallsOf out))
                in if hasUserCreation st \<and> replyIsEmpty finalResponse
                   then userCreationFallback rt (newUserInfo st)
                   else finalResponse)))"

text \<open>
  \<open>extractResponseText\<close>: the concatenated output text; when there is none and the
  response echoes function-call outputs, the fallback for \<open>getCurrentTime\<close> or the
  generic one.
\<close>

fun isFunctionCallRecord :: "input_item \<Rightarrow> bool" where
  "isFunctionCallRecord (FunctionCallRecord c n a) = True"
| "isFunctionCallRecord x = False"

fun isFunctionOutput :: "input_item \<Rightarrow> bool" where
  "isFunctionOutput (FunctionCallOutput c n out) = True"
| "isFunctionOutput x = False"

fun outputNamed :: "string \<Rightarrow> input_item \<Rightarrow> bool" where
  "outputNamed n (FunctionCallOutput c (Some m) out) = (m = n)"
| "outputNamed n x = False"

fun outputOf :: "input_item \<Rightarrow> js" where
  "outputOf (FunctionCallOutput c n out) = out"
| "outputOf x = JUndefined"

definition currentTimeFallback :: "runtime \<Rightarrow> input_item \<Rightarrow> string option" where
  "currentTimeFallback rt item =
     (case json_parse rt (js_string rt (outputOf item)) of
        Inl e \<Rightarrow> None
      | Inr outputData \<Rightarrow>
          (if outputData = JNull \<or> outputData = JUndefined then None
           else if truthy (js_get outputData ''formatted'')
           then Some (''The current time is '' @ js_string rt (js_get outputData ''formatted'')
                        @ '' in the '' @ js_string rt (js_get outputData ''timezone'')
                        @ '' timezone.'')
           else None))"

definition genericFallback :: string where
  "genericFallback = ''I've processed your request. Is there anything else you'd like to know?''"

definition extractResponseText :: "runtime \<Rightarrow> response \<Rightarrow> string" where
  "extractResponseText rt r =
     (case resp_output r of
        None \<Rightarrow> []
      | Some [] \<Rightarrow> []
      | Some out \<Rightarrow>
          (let responseText = output_texts out in
           if responseText = [] then
             (case resp_input r of
                None \<Rightarrow> responseText
              | Some inp \<Rightarrow>
                  (let functionOutputs = filter isFunctionOutput inp in
                   if functionOutputs \<noteq> [] then
                     (case find (outputNamed ''getCurrentTime'') functionOutputs of
                        Some getCurrentTimeOutput \<Rightarrow>
                          (case currentTimeFallback rt getCurrentTimeOutput of
                             Some t \<Rightarrow> t
                           | None \<Rightarrow> genericFallback)
                      | None \<Rightarrow> genericFallback)
                   else responseText))
           else responseText))"

section \<open>Message processor (services/message-processor.js)\<close>

text \<open>
  The collaborators of \<open>processWhatsAppMessage\<close>: the session manager's operations on
  the document store, the read of the collection, the merge engine's store, the model
  backend and the tool registry. Each of them answers or throws.
\<close>

record mp_env =
  mp_rt :: runtime
  mp_config :: config
  mp_tools :: "js list"
  getOrCreateConversationByIdentifier :: "string \<Rightarrow> string \<Rightarrow> error + conversation"
  addMessage :: "string \<Rightarrow> string \<Rightarrow> string \<Rightarrow> string \<Rightarrow> error + unit"
  collection :: "error + conversation list"
  mp_merge :: merge_env
  getConversationById :: "string \<Rightarrow> error + conversation"
  responses_create :: "request \<Rightarrow> error + response"
  toolRegistry :: "string \<Rightarrow> handler option"
  updateResponseId :: "string \<Rightarrow> string option \<Rightarrow> error + unit"

text \<open>The auto-merge block: any error in it is logged and the turn goes on.\<close>

definition autoMerge :: "mp_env \<Rightarrow> conversation \<Rightarrow> string \<Rightarrow> conversation" where
  "autoMerge env conversation cleanPhoneNumber =
     (case collection env of
        Inl e \<Rightarrow> conversation
      | Inr docs \<Rightarrow>
          (let existingConversations = autoMergeLookup docs (conv_id conversation) cleanPhoneNumber in
           if existingConversations \<noteq> [] then
             (case mergeConversations (mp_merge env) (conv_id conversation) existingConversations of
                Inl e \<Rightarrow> conversation
              | Inr mergeResult \<Rightarrow> mr_conversation mergeResult)
           else conversation))"

definition emptyUserInfo :: userInfo where
  "emptyUserInfo = \<lparr>userId = None, firstName = None, lastName = None, u_email = None, u_phone = None\<rparr>"

definition isPhoneIdentifier :: "ident \<Rightarrow> bool" where
  "isPhoneIdentifier i = (id_type i = ''whatsapp_phone'' \<or> id_type i = ''phone'')"

text \<open>
  The user information of the turn: \<open>conversation.userInfo || {}\<close>, and when a phone
  identifier exists and no phone is stored, \<open>{...userInfo, phone}\<close>. The stored
  \<open>userInfo\<close> is a mongoose subdocument, whose schema fields are not own
  properties: the spread copies none of them, so the new object carries the phone only.
\<close>

definition userInfoFor :: "conversation \<Rightarrow> userInfo" where
  "userInfoFor conversation =
     (let u = (case conv_userInfo conversation of Some x \<Rightarrow> x | None \<Rightarrow> emptyUserInfo) in
      case find isPhoneIdentifier (identifiers conversation) of
        Some phoneIdentifier \<Rightarrow>
          (if \<not> truthy_str (u_phone u)
           then emptyUserInfo\<lparr>u_phone := Some (id_value phoneIdentifier)\<rparr>
           else u)
      | None \<Rightarrow> u)"

definition hasFunctionCalls :: "response \<Rightarrow> bool" where
  "hasFunctionCalls r =
     (case resp_output r of None \<Rightarrow> False | Some out \<Rightarrow> functionCallsOf out \<noteq> [])"

fun fieldsOf :: "js \<Rightarrow> (string \<times> js) list" where
  "fieldsOf (JObj kvs) = kvs"
| "fieldsOf v = []"

text \<open>
  The executor handed to \<open>processFunctionCalls\<close>: \<open>executeTool\<close> with the conversation
  id and the user message in the context; the fields of \<open>toolContext\<close> are spread last
  and win, so they come first in the association list.
\<close>

definition whatsappToolExecutor :: "mp_env \<Rightarrow> conversation \<Rightarrow> string \<Rightarrow> tool_executor" where
  "whatsappToolExecutor env conversation msg functionCall toolContext =
     (case executeTool (mp_rt env) (toolRegistry env) functionCall
             (JObj (fieldsOf toolContext
                    @ [(''conversationId'', JStr (conv_id conversation)),
                       (''userMessage'', JStr msg)])) of
        Inl e \<Rightarrow> Inl e
      | Inr run \<Rightarrow> Inr (JStr (tr_output run)))"

definition whatsappTurn :: "mp_env \<Rightarrow> string \<Rightarrow> string \<Rightarrow> error + string" where
  "whatsappTurn env cleanPhoneNumber msg =
     (case getOrCreateConversationByIdentifier env ''whatsapp_phone'' cleanPhoneNumber of
        Inl e \<Rightarrow> Inl e
      | Inr conversation0 \<Rightarrow>
     (case addMessage env (conv_id conversation0) ''user'' msg ''whatsapp'' of
        Inl e \<Rightarrow> Inl e
      | Inr u1 \<Rightarrow>
     (case getConversationById env (conv_id (autoMerge env conversation0 cleanPhoneNumber)) of
        Inl e \<Rightarrow> Inl e
      | Inr conversation \<Rightarrow>
     (case processMessage (responses_create env) (mp_config env) msg
             (assembleHistory (mp_config env) conversation)
             (Some (userInfoFor conversation)) (previousResponseId conversation) (mp_tools env) of
        Inl e \<Rightarrow> Inl e
      | Inr openaiResponse0 \<Rightarrow>
          (let openaiResponse =
                 (if hasFunctionCalls openaiResponse0
                  then processFunctionCalls (mp_rt env) (mp_config env) (responses_create env)
                         openaiResponse0 (whatsappToolExecutor env conversation msg) (JObj [])
                  else openaiResponse0);
               responseText = extractResponseText (mp_rt env) openaiResponse
           in case addMessage env (conv_id conversation) ''assistant'' responseText ''whatsapp'' of
                Inl e \<Rightarrow> Inl e
              | Inr u2 \<Rightarrow>
                  (case updateResponseId env (conv_id conversation) (resp_id openaiResponse) of
                     Inl e \<Rightarrow> Inl e
                   | Inr u3 \<Rightarrow>
                       Inr (or_str responseText
                              ''I processed your request but have no specific response.'')))))))"

definition processWhatsAppMessage :: "mp_env \<Rightarrow> string option \<Rightarrow> string \<Rightarrow> string" where
  "processWhatsAppMessage env from_addr msg =
     (case formatPhoneToE164 from_addr of
        None \<Rightarrow> ''There was an issue processing your sender information.''
      | Some cleanPhoneNumber \<Rightarrow>
          (if cleanPhoneNumber = [] then ''There was an issue processing your sender information.''
           else case whatsappTurn env cleanPhoneNumber msg of
                  Inl e \<Rightarrow> ''I encountered an error processing your message. Please try again.''
                | Inr t \<Rightarrow> t))"

section \<open>Example data\<close>

text \<open>
  A browser conversation \<open>P\<close> and a messaging conversation \<open>C\<close> of the same contact.
  \<open>C\<close> holds a message that \<open>P\<close> already holds (as after a merge whose clean-up did
  not complete), and both hold the phone identifier \<open>07911123456\<close>, with a higher
  priority and verified on \<open>C\<close>.
\<close>

definition ex_m1 :: message where
  "ex_m1 = \<lparr>msg_id = Some ''m1'', role = ''user'', content = ''my number is 07911123456'',
            timestamp = 1000, channel = ''website''\<rparr>"

definition ex_m2 :: message where
  "ex_m2 = \<lparr>msg_id = Some ''m2'', role = ''assistant'', content = ''your invoice is ready'',
            timestamp = 2000, channel = ''whatsapp''\<rparr>"

definition ex_phone_low :: ident where
  "ex_phone_low = \<lparr>id_type = ''phone'', id_value = ''07911123456'', addedAt = 0,
                   verified = False, verifiedAt = None, priority = 10\<rparr>"

definition ex_phone_high :: ident where
  "ex_phone_high = \<lparr>id_type = ''phone'', id_value = ''07911123456'', addedAt = 5,
                    verified = True, verifiedAt = Some 5, priority = 70\<rparr>"

definition ex_whatsapp_ident :: ident where
  "ex_whatsapp_ident = \<lparr>id_type = ''whatsapp_phone'', id_value = ''+447911123456'', addedAt = 1,
                        verified = True, verifiedAt = None, priority = 70\<rparr>"

definition ex_primary :: conversation where
  "ex_primary = \<lparr>conv_id = ''P'', identifiers = [ex_phone_low], conv_userInfo = None,
                 lastUpdated = 0, lastActivity = 0, messages = [ex_m1, ex_m2],
                 previousResponseId = None, conv_channel = ''website'', conv_summary = None\<rparr>"

definition ex_candidate :: conversation where
  "ex_candidate = \<lparr>conv_id = ''C'', identifiers = [ex_whatsapp_ident, ex_phone_high],
                   conv_userInfo = None, lastUpdated = 0, lastActivity = 0, messages = [ex_m2],
                   previousResponseId = None, conv_channel = ''whatsapp'', conv_summary = None\<rparr>"

definition ex_config :: config where
  "ex_config = \<lparr>openai_model = ''gpt-4.1-nano-2025-04-14'',
                openai_summaryModel = ''gpt-4o-mini-2024-07-18'',
                maxHistoryMessages = 10, summary_minMessageCount = 5,
                summary_recentMessageCount = 20, summary_enabled = True,
                mainSystemPrompt = ''You are a helpful assistant.''\<rparr>"

definition ex_summary_env :: summary_env where
  "ex_summary_env = \<lparr>se_config = ex_config, se_client = NoGetter, se_guidance = [], se_now = 3000\<rparr>"

text \<open>A store that holds the given primary conversation and whose writes succeed.\<close>

definition ex_store :: "conversation \<Rightarrow> merge_env" where
  "ex_store p = \<lparr>findById = (\<lambda>i. if i = conv_id p then Inr (Some p) else Inr None),
                 save = (\<lambda>c. Inr ()), deleteMany = (\<lambda>ids. Inr ()),
                 me_summary = ex_summary_env, me_now = 3000\<rparr>"

definition ex_merged_once :: conversation where
  "ex_merged_once =
     ex_primary\<lparr>messages := [ex_m1, ex_m2, ex_m2],
                identifiers := [ex_phone_low, ex_whatsapp_ident],
                lastUpdated := 3000\<rparr>"

text \<open>The store after the first merge, and the result of merging \<open>C\<close> again.\<close>

definition ex_merged_twice :: conversation where
  "ex_merged_twice = ex_merged_once\<lparr>messages := [ex_m1, ex_m2, ex_m2, ex_m2]\<rparr>"

text \<open>
  The primary with a summary written earlier, in a store whose summary backend throws
  and whose summary threshold is two messages.
\<close>

definition ex_old_summary :: summary where
  "ex_old_summary = \<lparr>summary_text = Some ''Asked about an invoice.'', createdAt = 500,
                     lastMessageId = Some ''m0'', messageCount = 5, modelUsed = None\<rparr>"

definition ex_summarised :: conversation where
  "ex_summarised = ex_primary\<lparr>conv_summary := Some ex_old_summary\<rparr>"

definition ex_failing_store :: merge_env where
  "ex_failing_store =
     (ex_store ex_summarised)
       \<lparr>me_summary := ex_summary_env
          \<lparr>se_config := ex_config\<lparr>summary_minMessageCount := 2\<rparr>,
           se_client := Client (\<lambda>req. Inl (Error ''request timed out'' None))\<rparr>\<rparr>"

definition ex_summarised_merged :: conversation where
  "ex_summarised_merged = ex_merged_once\<lparr>conv_summary := Some ex_old_summary\<rparr>"

text \<open>
  Three calls on \<open>P\<close>: a verified phone of priority 70, the same phone unverified with
  priority 5, and an email address.
\<close>

definition ex_calls :: "add_call list" where
  "ex_calls = [\<lparr>ac_type = ''phone'', ac_value = ''07911123456'', ac_priority = 70,
                ac_verified = True, ac_now = 10\<rparr>,
               \<lparr>ac_type = ''phone'', ac_value = ''07911123456'', ac_priority = 5,
                ac_verified = False, ac_now = 20\<rparr>,
               \<lparr>ac_type = ''email'', ac_value = ''a@b.c'', ac_priority = 60,
                ac_verified = False, ac_now = 30\<rparr>]"

text \<open>A browser conversation \<open>B\<close> stored under the national form of the number.\<close>

definition ex_browser :: conversation where
  "ex_browser = ex_primary\<lparr>conv_id := ''B'', identifiers := [ex_phone_low\<lparr>priority := 70\<rparr>]\<rparr>"

text \<open>A conversation of 25 messages with a summary.\<close>

definition ex_long :: conversation where
  "ex_long = ex_primary\<lparr>messages := replicate 24 ex_m2 @ [ex_m1],
                        conv_summary := Some ex_old_summary\<rparr>"

text \<open>
  A runtime whose \<open>JSON.parse\<close> knows two texts and whose \<open>JSON.stringify\<close> shows the
  \<open>code\<close> field of a value, or its \<open>message\<close> when it has no code; a registry of
  three handlers: one returns an object, one throws, one returns a string that is not
  JSON text.
\<close>

definition ex_runtime :: runtime where
  "ex_runtime =
     \<lparr>json_parse = (\<lambda>s. if s = ''{}'' then Inr (JObj [])
                         else if s = ''5'' then Inr (JNum 5)
                         else Inl (Error ''Unexpected token'' None)),
      json_stringify = (\<lambda>v. str_of (js_or_val (js_get v ''code'') (js_get v ''message''))),
      js_string = str_of,
      date_now = ''1700000000000''\<rparr>"

definition ex_registry :: "string \<Rightarrow> handler option" where
  "ex_registry n =
     (if n = ''getCurrentTime''
      then Some (\<lambda>args ctx. Returned (JObj [(''success'', JBool True), (''code'', JStr ''OK'')]))
      else if n = ''lookupOrder''
      then Some (\<lambda>args ctx. Threw (Error ''connection refused'' None))
      else if n = ''greet''
      then Some (\<lambda>args ctx. Returned (JStr ''plain text''))
      else None)"

definition ex_call :: "string \<Rightarrow> string \<Rightarrow> string \<Rightarrow> tool_call" where
  "ex_call i n a = \<lparr>tc_call_id = i, tc_name = n, tc_arguments = JStr a\<rparr>"

text \<open>An input item that is neither a function-call record nor a function-call output.\<close>

definition plainTurn :: "input_item \<Rightarrow> bool" where
  "plainTurn x = (\<not> isFunctionCallRecord x \<and> \<not> isFunctionOutput x)"

text \<open>
  \<open>executeTool\<close> on the example registry as the executor, and a reply with two
  function-call intents around a message item; the handler of the first call throws.
\<close>

definition ex_executor :: tool_executor where
  "ex_executor c tctx =
     (case executeTool ex_runtime ex_registry c tctx of
        Inl e \<Rightarrow> Inl e
      | Inr run \<Rightarrow> Inr (JStr (tr_output run)))"

definition ex_reply :: response where
  "ex_reply =
     \<lparr>resp_id = Some ''resp_1'',
      resp_output = Some [FunctionCall (ex_call ''call_1'' ''lookupOrder'' ''{}''),
                          MessageItem [],
                          FunctionCall (ex_call ''call_2'' ''getCurrentTime'' ''{}'')],
      resp_input = None, resp_model = None, resp_tools = None\<rparr>"

text \<open>
  A backend that throws, a backend whose reply has no output, and the collaborators of
  a turn around either of them.
\<close>

definition ex_backend_down :: "request \<Rightarrow> error + response" where
  "ex_backend_down req = Inl (Error ''503 Service Unavailable'' None)"

definition ex_backend_silent :: "request \<Rightarrow> error + response" where
  "ex_backend_silent req =
     Inr \<lparr>resp_id = Some ''resp_2'', resp_output = Some [], resp_input = None,
          resp_model = None, resp_tools = None\<rparr>"

definition ex_mp_env :: "(request \<Rightarrow> error + response) \<Rightarrow> mp_env" where
  "ex_mp_env create =
     \<lparr>mp_rt = ex_runtime, mp_config = ex_config, mp_tools = [],
      getOrCreateConversationByIdentifier = (\<lambda>t v. Inr ex_candidate),
      addMessage = (\<lambda>i r c ch. Inr ()),
      collection = Inr [],
      mp_merge = ex_store ex_candidate,
      getConversationById = (\<lambda>i. Inr ex_candidate),
      responses_create = create,
      toolRegistry = ex_registry,
      updateResponseId = (\<lambda>i r. Inr ())\<rparr>"

text \<open>
  A summary backend whose reply holds a text; the store of \<open>P\<close> with the silent backend;
  and a primary whose latest message has no id, in a store whose backend answers.
\<close>

definition ex_backend_text :: "request \<Rightarrow> error + response" where
  "ex_backend_text req =
     Inr \<lparr>resp_id = Some ''resp_3'',
          resp_output = Some [MessageItem [ContentItem ''output_text'' ''The user asked about an invoice.'']],
          resp_input = None, resp_model = None, resp_tools = None\<rparr>"

definition ex_empty_store :: merge_env where
  "ex_empty_store =
     ex_failing_store
       \<lparr>me_summary := (me_summary ex_failing_store)\<lparr>se_client := Client ex_backend_silent\<rparr>\<rparr>"

definition ex_m3 :: message where
  "ex_m3 = \<lparr>msg_id = None, role = ''user'', content = ''thanks'', timestamp = 2500,
            channel = ''website''\<rparr>"

definition ex_noid_primary :: conversation where
  "ex_noid_primary = ex_summarised\<lparr>messages := [ex_m1, ex_m3]\<rparr>"

definition ex_noid_store :: merge_env where
  "ex_noid_store =
     (ex_store ex_noid_primary)
       \<lparr>me_summary := (me_summary ex_failing_store)\<lparr>se_client := Client ex_backend_text\<rparr>\<rparr>"

definition ex_noid_merged :: conversation where
  "ex_noid_merged = ex_summarised_merged\<lparr>messages := [ex_m1, ex_m2, ex_m3]\<rparr>"

text \<open>An executor that throws on the first call of the example reply.\<close>

definition ex_raw_executor :: tool_executor where
  "ex_raw_executor c tctx =
     (if tc_name c = ''lookupOrder'' then Inl (Error ''tool crashed'' None) else Inr (JStr ''{}''))"

section \<open>Properties of the merge\<close>

lemmas ex_defs = ex_m1_def ex_m2_def ex_phone_low_def ex_phone_high_def ex_whatsapp_ident_def
  ex_primary_def ex_candidate_def ex_config_def ex_summary_env_def ex_store_def ex_merged_once_def

lemma foldl_mergeStep_messages:
  "allMessages (foldl mergeStep st cs) = allMessages st @ concat (map messages cs)"
  by (induction cs arbitrary: st) (simp_all add: mergeStep_def)

lemma foldl_mergeStep_total:
  "totalMergedMessages (foldl mergeStep st cs)
     = totalMergedMessages st + (\<Sum>c\<leftarrow>cs. length (messages c))"
  by (induction cs arbitrary: st) (simp_all add: mergeStep_def)

lemma mergeLoop_allMessages:
  "allMessages (mergeLoop p cs) = messages p @ concat (map messages cs)"
  by (simp add: mergeLoop_def foldl_mergeStep_messages)

lemma mergedPrimary_messages:
  "messages (mergedPrimary now p cs) = sort_key timestamp (messages p @ concat (map messages cs))"
  by (simp add: mergedPrimary_def Let_def mergeLoop_allMessages)

lemma withSummary_messages: "messages (withSummary env c) = messages c"
  by (simp add: withSummary_def split: option.splits)

lemma withSummary_identifiers: "identifiers (withSummary env c) = identifiers c"
  by (simp add: withSummary_def split: option.splits)

lemma mergeConversations_Inr:
  assumes "findById env pid = Inr (Some p)" and "mergeConversations env pid cs = Inr r"
  shows "mr_conversation r
           = withSummary (me_summary env) (mergedPrimary (me_now env) p cs)"
    and "mergedCount r = length cs"
    and "mergedMessages r = totalMergedMessages (mergeLoop p cs)"
  using assms by (auto simp: mergeConversations_def Let_def split: sum.splits)

lemma merged_messages:
  assumes "findById env pid = Inr (Some p)" and "mergeConversations env pid cs = Inr r"
  shows "messages (mr_conversation r) = sort_key timestamp (messages p @ concat (map messages cs))"
  using mergeConversations_Inr(1)[OF assms]
  by (simp add: withSummary_messages mergedPrimary_messages)

lemma ex_merge_once:
  "mergeConversations (ex_store ex_primary) ''P'' [ex_candidate] =
     Inr \<lparr>mr_conversation = ex_merged_once, mergedCount = 1, mergedMessages = 1\<rparr>"
  by (simp add: mergeConversations_def mergedPrimary_def mergeLoop_def mergeStep_def withSummary_def
        generateSummary_def pushUnique_def samePair_def js_or_def hasUserId_def ex_defs)

lemma ex_find_primary: "findById (ex_store ex_primary) ''P'' = Inr (Some ex_primary)"
  by (simp add: ex_store_def ex_primary_def)

text \<open>
  C1 (as amended). A successful merge of the candidates into the primary \<open>p\<close> leaves, as
  the message list of the merged conversation, the messages of \<open>p\<close> followed by those of
  the candidates in order, stably sorted by ascending timestamp: the list is sorted, it
  holds every message of every input as often as the inputs hold it (nothing is
  de-duplicated), and messages of equal timestamp keep their relative order.
\<close>

theorem merge_messages_sorted_concat:
  assumes "findById env pid = Inr (Some p)" and "mergeConversations env pid cs = Inr r"
  shows "messages (mr_conversation r) = sort_key timestamp (messages p @ concat (map messages cs))
       \<and> mset (messages (mr_conversation r)) = mset (messages p) + (\<Sum>c\<leftarrow>cs. mset (messages c))
       \<and> sorted (map timestamp (messages (mr_conversation r)))
       \<and> (\<forall>t. filter (\<lambda>m. timestamp m = t) (messages (mr_conversation r))
              = filter (\<lambda>m. timestamp m = t) (messages p @ concat (map messages cs)))"
proof -
  have eq: "messages (mr_conversation r)
              = sort_key timestamp (messages p @ concat (map messages cs))"
    by (rule merged_messages[OF assms])
  have m: "mset (concat (map messages cs)) = (\<Sum>c\<leftarrow>cs. mset (messages c))"
    by (induction cs) simp_all
  show ?thesis
    by (simp add: eq m sort_key_stable)
qed

text \<open>The theorem at the example: \<open>C\<close> merged into \<open>P\<close>.\<close>

theorem merge_messages_sorted_concat_witness:
  "findById (ex_store ex_primary) ''P'' = Inr (Some ex_primary)
   \<and> mergeConversations (ex_store ex_primary) ''P'' [ex_candidate]
       = Inr \<lparr>mr_conversation = ex_merged_once, mergedCount = 1, mergedMessages = 1\<rparr>
   \<and> messages ex_merged_once = sort_key timestamp (messages ex_primary @ messages ex_candidate)
   \<and> sorted (map timestamp (messages ex_merged_once))"
  using merge_messages_sorted_concat[OF ex_find_primary ex_merge_once]
  by (simp add: ex_find_primary ex_merge_once)

text \<open>
  The claim of C1 as stated fails at the example: the merged list holds the message
  \<open>ex_m2\<close> twice, the de-duplicated sorted union holds it once.
\<close>

theorem merge_dedup_counterexample:
  "mergeConversations (ex_store ex_primary) ''P'' [ex_candidate]
     = Inr \<lparr>mr_conversation = ex_merged_once, mergedCount = 1, mergedMessages = 1\<rparr>
   \<and> messages ex_merged_once = [ex_m1, ex_m2, ex_m2]
   \<and> spec_mergedMessages ex_primary [ex_candidate] = [ex_m1, ex_m2]
   \<and> messages ex_merged_once \<noteq> spec_mergedMessages ex_primary [ex_candidate]"
  by (simp add: ex_merge_once)
     (simp add: spec_mergedMessages_def spec_dedupMessages_def sameMessage_def ex_defs)

lemma mergeConversations_found:
  "mergeConversations env pid cs = Inr r \<Longrightarrow> \<exists>p. findById env pid = Inr (Some p)"
  by (auto simp: mergeConversations_def split: sum.splits option.splits)

lemma length_concat_messages:
  "length (concat (map messages cs)) = (\<Sum>c\<leftarrow>cs. length (messages c))"
  by (induction cs) simp_all

lemma pushUnique_present:
  "list_ex (\<lambda>j. samePair j i) acc \<Longrightarrow> pushUnique acc i = acc"
  by (simp add: pushUnique_def)

lemma pushUnique_covers: "list_ex (\<lambda>j. samePair j i) (pushUnique acc i)"
  by (auto simp: pushUnique_def list_ex_iff samePair_def)

lemma pushUnique_mono:
  "list_ex (\<lambda>j. samePair j k) acc \<Longrightarrow> list_ex (\<lambda>j. samePair j k) (pushUnique acc i)"
  by (auto simp: pushUnique_def list_ex_iff)

lemma foldl_pushUnique_mono:
  "list_ex (\<lambda>j. samePair j k) acc \<Longrightarrow> list_ex (\<lambda>j. samePair j k) (foldl pushUnique acc ids)"
  by (induction ids arbitrary: acc) (simp_all add: pushUnique_mono)

lemma foldl_pushUnique_covers:
  "i \<in> set ids \<Longrightarrow> list_ex (\<lambda>j. samePair j i) (foldl pushUnique acc ids)"
proof (induction ids arbitrary: acc)
  case Nil
  then show ?case by simp
next
  case (Cons a ids)
  show ?case
  proof (cases "i = a")
    case True
    then show ?thesis by (simp add: foldl_pushUnique_mono pushUnique_covers)
  next
    case False
    with Cons show ?thesis by simp
  qed
qed

lemma foldl_pushUnique_fixed:
  "(\<And>i. i \<in> set ids \<Longrightarrow> list_ex (\<lambda>j. samePair j i) acc) \<Longrightarrow> foldl pushUnique acc ids = acc"
  by (induction ids arbitrary: acc) (simp_all add: pushUnique_present)

lemma mergeStep_identifiers:
  "allIdentifiers (mergeStep st c) = foldl pushUnique (allIdentifiers st) (identifiers c)"
  by (simp add: mergeStep_def)

lemma foldl_mergeStep_mono:
  "list_ex (\<lambda>j. samePair j k) (allIdentifiers st)
   \<Longrightarrow> list_ex (\<lambda>j. samePair j k) (allIdentifiers (foldl mergeStep st cs))"
  by (induction cs arbitrary: st) (simp_all add: mergeStep_identifiers foldl_pushUnique_mono)

lemma foldl_mergeStep_covers:
  "c \<in> set cs \<Longrightarrow> i \<in> set (identifiers c)
   \<Longrightarrow> list_ex (\<lambda>j. samePair j i) (allIdentifiers (foldl mergeStep st cs))"
proof (induction cs arbitrary: st)
  case Nil
  then show ?case by simp
next
  case (Cons a cs)
  show ?case
  proof (cases "c = a")
    case True
    with Cons.prems show ?thesis
      by (simp add: foldl_mergeStep_mono mergeStep_identifiers foldl_pushUnique_covers)
  next
    case False
    with Cons show ?thesis by simp
  qed
qed

lemma foldl_mergeStep_fixed:
  "(\<And>c i. c \<in> set cs \<Longrightarrow> i \<in> set (identifiers c) \<Longrightarrow> list_ex (\<lambda>j. samePair j i) (allIdentifiers st))
   \<Longrightarrow> allIdentifiers (foldl mergeStep st cs) = allIdentifiers st"
proof (induction cs arbitrary: st)
  case Nil
  then show ?case by simp
next
  case (Cons a cs)
  have "foldl pushUnique (allIdentifiers st) (identifiers a) = allIdentifiers st"
  proof (rule foldl_pushUnique_fixed)
    fix i assume "i \<in> set (identifiers a)"
    then show "list_ex (\<lambda>j. samePair j i) (allIdentifiers st)"
      using Cons.prems[of a i] by simp
  qed
  then have a: "allIdentifiers (mergeStep st a) = allIdentifiers st"
    by (simp add: mergeStep_identifiers)
  have "allIdentifiers (foldl mergeStep (mergeStep st a) cs) = allIdentifiers (mergeStep st a)"
  proof (rule Cons.IH)
    fix c i assume "c \<in> set cs" and "i \<in> set (identifiers c)"
    then show "list_ex (\<lambda>j. samePair j i) (allIdentifiers (mergeStep st a))"
      using Cons.prems[of c i] by (simp add: a)
  qed
  then show ?case by (simp add: a)
qed

lemma mergedPrimary_identifiers:
  "identifiers (mergedPrimary now p cs) = allIdentifiers (mergeLoop p cs)"
  by (simp add: mergedPrimary_def Let_def)

lemma merged_identifiers:
  assumes "findById env pid = Inr (Some p)" and "mergeConversations env pid cs = Inr r"
  shows "identifiers (mr_conversation r) = allIdentifiers (mergeLoop p cs)"
  using mergeConversations_Inr(1)[OF assms]
  by (simp add: withSummary_identifiers mergedPrimary_identifiers)

lemma mergeLoop_identifiers_again:
  assumes "identifiers q = allIdentifiers (mergeLoop p cs)"
  shows "allIdentifiers (mergeLoop q cs) = identifiers q"
proof -
  have "allIdentifiers (foldl mergeStep
          \<lparr>allMessages = messages q, allIdentifiers = identifiers q,
           totalMergedMessages = 0, primaryUserInfo = conv_userInfo q\<rparr> cs)
        = allIdentifiers \<lparr>allMessages = messages q, allIdentifiers = identifiers q,
           totalMergedMessages = 0, primaryUserInfo = conv_userInfo q\<rparr>"
    by (rule foldl_mergeStep_fixed) (simp add: assms mergeLoop_def foldl_mergeStep_covers)
  then show ?thesis by (simp add: mergeLoop_def)
qed

lemma ex_merge_twice:
  "mergeConversations (ex_store ex_merged_once) ''P'' [ex_candidate] =
     Inr \<lparr>mr_conversation = ex_merged_twice, mergedCount = 1, mergedMessages = 1\<rparr>"
  by (simp add: mergeConversations_def mergedPrimary_def mergeLoop_def mergeStep_def withSummary_def
        generateSummary_def pushUnique_def samePair_def js_or_def hasUserId_def ex_defs ex_merged_twice_def)

lemma ex_find_merged: "findById (ex_store ex_merged_once) ''P'' = Inr (Some ex_merged_once)"
  by (simp add: ex_defs)

text \<open>
  C2 (as amended). Running the merge a second time against the same candidates, with the
  store now holding the result of the first run as the primary, adds every candidate
  message once more: the message count after the second run is the count after the
  first plus the number of messages of the candidates. The two counts agree exactly
  when no candidate holds a message. The identifier list is the same after both runs.
\<close>

theorem merge_twice_message_count:
  assumes "mergeConversations env pid cs = Inr r1"
      and "findById env' pid = Inr (Some (mr_conversation r1))"
      and "mergeConversations env' pid cs = Inr r2"
  shows "length (messages (mr_conversation r2))
           = length (messages (mr_conversation r1)) + (\<Sum>c\<leftarrow>cs. length (messages c))
       \<and> ((length (messages (mr_conversation r2)) = length (messages (mr_conversation r1)))
            = (\<forall>c\<in>set cs. messages c = []))
       \<and> identifiers (mr_conversation r2) = identifiers (mr_conversation r1)"
proof -
  obtain p where p: "findById env pid = Inr (Some p)"
    using mergeConversations_found[OF assms(1)] by blast
  have len: "length (messages (mr_conversation r2))
           = length (messages (mr_conversation r1)) + (\<Sum>c\<leftarrow>cs. length (messages c))"
    by (simp add: merged_messages[OF assms(2,3)] length_concat_messages)
  have zero: "((\<Sum>c\<leftarrow>cs. length (messages c)) = 0) = (\<forall>c\<in>set cs. messages c = [])"
    by (induction cs) auto
  have ids: "identifiers (mr_conversation r2) = identifiers (mr_conversation r1)"
    using mergeLoop_identifiers_again[OF merged_identifiers[OF p assms(1)]]
    by (simp add: merged_identifiers[OF assms(2,3)])
  show ?thesis using len zero ids by simp
qed

text \<open>The theorem at the example: \<open>C\<close> merged into \<open>P\<close>, twice.\<close>

theorem merge_twice_message_count_witness:
  "mergeConversations (ex_store ex_primary) ''P'' [ex_candidate]
     = Inr \<lparr>mr_conversation = ex_merged_once, mergedCount = 1, mergedMessages = 1\<rparr>
   \<and> findById (ex_store ex_merged_once) ''P'' = Inr (Some ex_merged_once)
   \<and> mergeConversations (ex_store ex_merged_once) ''P'' [ex_candidate]
     = Inr \<lparr>mr_conversation = ex_merged_twice, mergedCount = 1, mergedMessages = 1\<rparr>
   \<and> length (messages ex_merged_twice) = length (messages ex_merged_once) + length (messages ex_candidate)
   \<and> identifiers ex_merged_twice = identifiers ex_merged_once"
  using merge_twice_message_count[OF ex_merge_once, of "ex_store ex_merged_once" "\<lparr>mr_conversation = ex_merged_twice, mergedCount = 1, mergedMessages = 1\<rparr>"]
  by (simp add: ex_merge_once ex_merge_twice ex_find_merged)

text \<open>
  The claim of C2 as stated fails at the example: three messages after one merge, four
  after the same merge is run again.
\<close>

theorem merge_idempotence_counterexample:
  "mergeConversations (ex_store ex_primary) ''P'' [ex_candidate]
     = Inr \<lparr>mr_conversation = ex_merged_once, mergedCount = 1, mergedMessages = 1\<rparr>
   \<and> mergeConversations (ex_store ex_merged_once) ''P'' [ex_candidate]
     = Inr \<lparr>mr_conversation = ex_merged_twice, mergedCount = 1, mergedMessages = 1\<rparr>
   \<and> length (messages ex_merged_once) = 3
   \<and> length (messages ex_merged_twice) = 4"
  by (simp add: ex_merge_once ex_merge_twice) (simp add: ex_merged_once_def ex_merged_twice_def)

lemma pushUnique_filter:
  "list_ex (isPair t v) acc \<Longrightarrow> filter (isPair t v) (pushUnique acc i) = filter (isPair t v) acc"
  by (auto simp: pushUnique_def list_ex_iff isPair_def samePair_def)

lemma pushUnique_keeps: "list_ex P acc \<Longrightarrow> list_ex P (pushUnique acc i)"
  by (auto simp: pushUnique_def list_ex_iff)

lemma foldl_pushUnique_filter:
  "list_ex (isPair t v) acc
   \<Longrightarrow> filter (isPair t v) (foldl pushUnique acc ids) = filter (isPair t v) acc
       \<and> list_ex (isPair t v) (foldl pushUnique acc ids)"
  by (induction ids arbitrary: acc) (simp_all add: pushUnique_filter pushUnique_keeps)

lemma foldl_mergeStep_filter:
  "list_ex (isPair t v) (allIdentifiers st)
   \<Longrightarrow> filter (isPair t v) (allIdentifiers (foldl mergeStep st cs))
         = filter (isPair t v) (allIdentifiers st)"
proof (induction cs arbitrary: st)
  case Nil
  then show ?case by simp
next
  case (Cons a cs)
  from foldl_pushUnique_filter[OF Cons.prems, of "identifiers a"]
  have f: "filter (isPair t v) (allIdentifiers (mergeStep st a)) = filter (isPair t v) (allIdentifiers st)"
    and e: "list_ex (isPair t v) (allIdentifiers (mergeStep st a))"
    by (simp_all add: mergeStep_identifiers)
  show ?case using Cons.IH[OF e] f by simp
qed

lemma pushUnique_prefix: "prefix acc (pushUnique acc i)"
  by (simp add: pushUnique_def)

lemma foldl_pushUnique_prefix: "prefix acc (foldl pushUnique acc ids)"
proof (induction ids arbitrary: acc)
  case Nil
  then show ?case by simp
next
  case (Cons a ids)
  show ?case using prefix_order.trans[OF pushUnique_prefix Cons.IH] by simp
qed

lemma foldl_mergeStep_prefix: "prefix (allIdentifiers st) (allIdentifiers (foldl mergeStep st cs))"
proof (induction cs arbitrary: st)
  case Nil
  then show ?case by simp
next
  case (Cons a cs)
  have "prefix (allIdentifiers st) (allIdentifiers (mergeStep st a))"
    by (simp add: mergeStep_identifiers foldl_pushUnique_prefix)
  then show ?case using prefix_order.trans[OF _ Cons.IH] by simp
qed

lemma mergeLoop_prefix: "prefix (identifiers p) (allIdentifiers (mergeLoop p cs))"
  using foldl_mergeStep_prefix
          [of "\<lparr>allMessages = messages p, allIdentifiers = identifiers p,
                totalMergedMessages = 0, primaryUserInfo = conv_userInfo p\<rparr>" cs]
  by (simp add: mergeLoop_def)

lemma mergeLoop_filter:
  "list_ex (isPair t v) (identifiers p)
   \<Longrightarrow> filter (isPair t v) (allIdentifiers (mergeLoop p cs)) = filter (isPair t v) (identifiers p)"
  using foldl_mergeStep_filter
          [of t v "\<lparr>allMessages = messages p, allIdentifiers = identifiers p,
                    totalMergedMessages = 0, primaryUserInfo = conv_userInfo p\<rparr>" cs]
  by (simp add: mergeLoop_def)

lemma find_filter_hd: "find P xs = (case filter P xs of [] \<Rightarrow> None | x # _ \<Rightarrow> Some x)"
  by (induction xs) simp_all

text \<open>
  C7 (as amended). When the primary already holds an identifier for a pair of type and
  value, a successful merge keeps that identifier as it is, whatever the candidates hold
  for the pair: the first identifier of the pair in the merged conversation is the
  primary's own, with its priority and its verified flag; the identifiers of the pair
  are those of the primary, and the primary's identifier list is a prefix of the merged
  one.
\<close>

theorem merge_keeps_primary_identifier:
  assumes "findById env pid = Inr (Some p)"
      and "mergeConversations env pid cs = Inr r"
      and "find (isPair t v) (identifiers p) = Some i"
  shows "find (isPair t v) (identifiers (mr_conversation r)) = Some i
       \<and> filter (isPair t v) (identifiers (mr_conversation r)) = filter (isPair t v) (identifiers p)
       \<and> prefix (identifiers p) (identifiers (mr_conversation r))"
proof -
  have ex: "list_ex (isPair t v) (identifiers p)"
    using assms(3) by (auto simp: list_ex_iff find_Some_iff)
  have ids: "identifiers (mr_conversation r) = allIdentifiers (mergeLoop p cs)"
    by (rule merged_identifiers[OF assms(1,2)])
  have f: "filter (isPair t v) (identifiers (mr_conversation r)) = filter (isPair t v) (identifiers p)"
    using mergeLoop_filter[OF ex] by (simp add: ids)
  have pre: "prefix (identifiers p) (identifiers (mr_conversation r))"
    by (simp add: ids mergeLoop_prefix)
  show ?thesis using f pre assms(3) by (simp add: find_filter_hd)
qed

text \<open>The theorem at the example, for the pair of \<open>phone\<close> and \<open>07911123456\<close>.\<close>

theorem merge_keeps_primary_identifier_witness:
  "findById (ex_store ex_primary) ''P'' = Inr (Some ex_primary)
   \<and> mergeConversations (ex_store ex_primary) ''P'' [ex_candidate]
     = Inr \<lparr>mr_conversation = ex_merged_once, mergedCount = 1, mergedMessages = 1\<rparr>
   \<and> find (isPair ''phone'' ''07911123456'') (identifiers ex_primary) = Some ex_phone_low
   \<and> find (isPair ''phone'' ''07911123456'') (identifiers ex_merged_once) = Some ex_phone_low"
proof -
  have h: "find (isPair ''phone'' ''07911123456'') (identifiers ex_primary) = Some ex_phone_low"
    by (simp add: ex_primary_def ex_phone_low_def isPair_def)
  show ?thesis
    using merge_keeps_primary_identifier[OF ex_find_primary ex_merge_once h]
    by (simp add: ex_find_primary ex_merge_once h)
qed

text \<open>
  The claim of C7 as stated fails at the example: the candidate holds the pair with
  priority 70 and verified, the primary with priority 10 and unverified, and the merged
  conversation keeps priority 10, unverified.
\<close>

theorem merge_priority_counterexample:
  "mergeConversations (ex_store ex_primary) ''P'' [ex_candidate]
     = Inr \<lparr>mr_conversation = ex_merged_once, mergedCount = 1, mergedMessages = 1\<rparr>
   \<and> find (isPair ''phone'' ''07911123456'') (identifiers ex_primary) = Some ex_phone_low
   \<and> find (isPair ''phone'' ''07911123456'') (identifiers ex_candidate) = Some ex_phone_high
   \<and> find (isPair ''phone'' ''07911123456'') (identifiers ex_merged_once) = Some ex_phone_low
   \<and> priority ex_phone_low = 10 \<and> priority ex_phone_high = 70
   \<and> \<not> verified ex_phone_low \<and> verified ex_phone_high"
  by (simp add: ex_merge_once) (simp add: ex_defs isPair_def)

lemma generateSummary_fails:
  assumes "(\<exists>create e. se_client env = Client create \<and> create (summaryRequest env m) = Inl e)
         \<or> (\<exists>create resp. se_client env = Client create
               \<and> create (summaryRequest env m) = Inr resp \<and> extractSummaryText resp = None)
         \<or> messages m = [] \<or> msg_id (last (messages m)) = None"
  shows "generateSummary env m = None"
  using assms
  by (auto simp: generateSummary_def Let_def split: client_access.splits sum.splits option.splits)

lemma withSummary_unchanged: "generateSummary env m = None \<Longrightarrow> withSummary env m = m"
  by (simp add: withSummary_def)

lemma withSummary_disabled: "withSummary (env\<lparr>se_config := (se_config env)\<lparr>summary_enabled := False\<rparr>\<rparr>) m = m"
  by (simp add: withSummary_def)

lemma mergedPrimary_summary: "conv_summary (mergedPrimary now p cs) = conv_summary p"
  by (simp add: mergedPrimary_def Let_def)

text \<open>
  C9. Let \<open>m\<close> be the primary after the union and the sort. If the summary generation
  for \<open>m\<close> fails, because the backend throws, because the reply holds no text, or
  because the last message has no id, and the store accepts the writes, then
  \<open>mergeConversations\<close> returns its normal result (\<open>m\<close>, the number of candidates and
  the number of their messages), and the summary of \<open>m\<close> is the summary the primary
  had. The outcome is that of the same merge with summaries disabled.
\<close>

theorem merge_survives_summary_failure:
  assumes "findById env pid = Inr (Some p)"
      and "m = mergedPrimary (me_now env) p cs"
      and "(\<exists>create e. se_client (me_summary env) = Client create
               \<and> create (summaryRequest (me_summary env) m) = Inl e)
         \<or> (\<exists>create resp. se_client (me_summary env) = Client create
               \<and> create (summaryRequest (me_summary env) m) = Inr resp
               \<and> extractSummaryText resp = None)
         \<or> messages m = [] \<or> msg_id (last (messages m)) = None"
      and "save env m = Inr ()" and "deleteMany env (map conv_id cs) = Inr ()"
  shows "mergeConversations env pid cs
           = Inr \<lparr>mr_conversation = m, mergedCount = length cs,
                  mergedMessages = (\<Sum>c\<leftarrow>cs. length (messages c))\<rparr>
       \<and> conv_summary m = conv_summary p
       \<and> mergeConversations env pid cs
           = mergeConversations
               (env\<lparr>me_summary := (me_summary env)
                  \<lparr>se_config := (se_config (me_summary env))\<lparr>summary_enabled := False\<rparr>\<rparr>\<rparr>) pid cs"
proof -
  have none: "generateSummary (me_summary env) m = None"
    by (rule generateSummary_fails[OF assms(3)])
  have w: "withSummary (me_summary env) m = m"
    by (rule withSummary_unchanged[OF none])
  have tot: "totalMergedMessages (mergeLoop p cs) = (\<Sum>c\<leftarrow>cs. length (messages c))"
    by (simp add: mergeLoop_def foldl_mergeStep_total)
  have r: "mergeConversations env pid cs
           = Inr \<lparr>mr_conversation = m, mergedCount = length cs,
                  mergedMessages = (\<Sum>c\<leftarrow>cs. length (messages c))\<rparr>"
    using assms(1,4,5) w tot by (simp add: mergeConversations_def assms(2)[symmetric])
  have d: "mergeConversations
               (env\<lparr>me_summary := (me_summary env)
                  \<lparr>se_config := (se_config (me_summary env))\<lparr>summary_enabled := False\<rparr>\<rparr>\<rparr>) pid cs
           = Inr \<lparr>mr_conversation = m, mergedCount = length cs,
                  mergedMessages = (\<Sum>c\<leftarrow>cs. length (messages c))\<rparr>"
    using assms(1,4,5) tot
    by (simp add: mergeConversations_def assms(2)[symmetric] withSummary_disabled)
  show ?thesis using r d by (simp add: assms(2) mergedPrimary_summary)
qed

lemma ex_failing_merged:
  "mergedPrimary (me_now ex_failing_store) ex_summarised [ex_candidate] = ex_summarised_merged"
  by (simp add: mergedPrimary_def mergeLoop_def mergeStep_def pushUnique_def samePair_def
        hasUserId_def ex_defs ex_failing_store_def ex_summarised_def ex_summarised_merged_def)

lemma ex_empty_merged:
  "mergedPrimary (me_now ex_empty_store) ex_summarised [ex_candidate] = ex_summarised_merged"
  by (simp add: mergedPrimary_def mergeLoop_def mergeStep_def pushUnique_def samePair_def
        hasUserId_def ex_defs ex_failing_store_def ex_empty_store_def ex_summarised_def
        ex_summarised_merged_def)

lemma ex_noid_merged_eq:
  "mergedPrimary (me_now ex_noid_store) ex_noid_primary [ex_candidate] = ex_noid_merged"
  by (simp add: mergedPrimary_def mergeLoop_def mergeStep_def pushUnique_def samePair_def
        hasUserId_def ex_defs ex_noid_store_def ex_noid_primary_def ex_summarised_def
        ex_summarised_merged_def ex_noid_merged_def ex_m3_def)

text \<open>
  The theorem at the example, once for each cause: the backend throws, the reply holds
  no text, the last message has no id. The earlier summary stays.
\<close>

theorem merge_survives_summary_failure_witness:
  "findById ex_failing_store ''P'' = Inr (Some ex_summarised)
   \<and> se_client (me_summary ex_failing_store) = Client (\<lambda>req. Inl (Error ''request timed out'' None))
   \<and> summary_enabled (se_config (me_summary ex_failing_store))
   \<and> int (length (messages ex_summarised_merged))
        \<ge> js_or (summary_minMessageCount (se_config (me_summary ex_failing_store))) 5
   \<and> mergeConversations ex_failing_store ''P'' [ex_candidate]
       = Inr \<lparr>mr_conversation = ex_summarised_merged, mergedCount = 1, mergedMessages = 1\<rparr>
   \<and> conv_summary ex_summarised_merged = Some ex_old_summary
   \<and> se_client (me_summary ex_empty_store) = Client ex_backend_silent
   \<and> mergeConversations ex_empty_store ''P'' [ex_candidate]
       = Inr \<lparr>mr_conversation = ex_summarised_merged, mergedCount = 1, mergedMessages = 1\<rparr>
   \<and> se_client (me_summary ex_noid_store) = Client ex_backend_text
   \<and> msg_id (last (messages ex_noid_merged)) = None
   \<and> mergeConversations ex_noid_store ''P'' [ex_candidate]
       = Inr \<lparr>mr_conversation = ex_noid_merged, mergedCount = 1, mergedMessages = 1\<rparr>
   \<and> conv_summary ex_noid_merged = Some ex_old_summary"
proof -
  have len: "length (messages ex_candidate) = 1"
    by (simp add: ex_candidate_def)
  \<comment> \<open>the backend throws\<close>
  have f: "findById ex_failing_store ''P'' = Inr (Some ex_summarised)"
    by (simp add: ex_failing_store_def ex_store_def ex_summarised_def ex_primary_def)
  have c: "se_client (me_summary ex_failing_store) = Client (\<lambda>req. Inl (Error ''request timed out'' None))"
    by (simp add: ex_failing_store_def)
  have s: "save ex_failing_store ex_summarised_merged = Inr ()"
    and d: "deleteMany ex_failing_store (map conv_id [ex_candidate]) = Inr ()"
    by (simp_all add: ex_failing_store_def ex_store_def)
  have cfg: "summary_enabled (se_config (me_summary ex_failing_store))
     \<and> int (length (messages ex_summarised_merged))
        \<ge> js_or (summary_minMessageCount (se_config (me_summary ex_failing_store))) 5"
    by (simp add: ex_failing_store_def ex_config_def js_or_def ex_summarised_merged_def ex_merged_once_def)
  have fail: "(\<exists>create e. se_client (me_summary ex_failing_store) = Client create
               \<and> create (summaryRequest (me_summary ex_failing_store) ex_summarised_merged) = Inl e)
         \<or> (\<exists>create resp. se_client (me_summary ex_failing_store) = Client create
               \<and> create (summaryRequest (me_summary ex_failing_store) ex_summarised_merged) = Inr resp
               \<and> extractSummaryText resp = None)
         \<or> messages ex_summarised_merged = [] \<or> msg_id (last (messages ex_summarised_merged)) = None"
    by (simp add: c)
  have r: "mergeConversations ex_failing_store ''P'' [ex_candidate]
       = Inr \<lparr>mr_conversation = ex_summarised_merged, mergedCount = 1, mergedMessages = 1\<rparr>"
    using merge_survives_summary_failure[OF f ex_failing_merged[symmetric] fail s d]
    by (simp add: len)
  have old: "conv_summary ex_summarised_merged = Some ex_old_summary"
    by (simp add: ex_summarised_merged_def)
  \<comment> \<open>the reply holds no text\<close>
  have f2: "findById ex_empty_store ''P'' = Inr (Some ex_summarised)"
    by (simp add: ex_empty_store_def ex_failing_store_def ex_store_def ex_summarised_def ex_primary_def)
  have c2: "se_client (me_summary ex_empty_store) = Client ex_backend_silent"
    by (simp add: ex_empty_store_def)
  have s2: "save ex_empty_store ex_summarised_merged = Inr ()"
    and d2: "deleteMany ex_empty_store (map conv_id [ex_candidate]) = Inr ()"
    by (simp_all add: ex_empty_store_def ex_failing_store_def ex_store_def)
  have fail2: "(\<exists>create e. se_client (me_summary ex_empty_store) = Client create
               \<and> create (summaryRequest (me_summary ex_empty_store) ex_summarised_merged) = Inl e)
         \<or> (\<exists>create resp. se_client (me_summary ex_empty_store) = Client create
               \<and> create (summaryRequest (me_summary ex_empty_store) ex_summarised_merged) = Inr resp
               \<and> extractSummaryText resp = None)
         \<or> messages ex_summarised_merged = [] \<or> msg_id (last (messages ex_summarised_merged)) = None"
    by (simp add: c2 ex_backend_silent_def extractSummaryText_def)
  have r2: "mergeConversations ex_empty_store ''P'' [ex_candidate]
       = Inr \<lparr>mr_conversation = ex_summarised_merged, mergedCount = 1, mergedMessages = 1\<rparr>"
    using merge_survives_summary_failure[OF f2 ex_empty_merged[symmetric] fail2 s2 d2]
    by (simp add: len)
  \<comment> \<open>the last message has no id\<close>
  have f3: "findById ex_noid_store ''P'' = Inr (Some ex_noid_primary)"
    by (simp add: ex_noid_store_def ex_store_def ex_noid_primary_def ex_summarised_def ex_primary_def)
  have c3: "se_client (me_summary ex_noid_store) = Client ex_backend_text"
    by (simp add: ex_noid_store_def)
  have s3: "save ex_noid_store ex_noid_merged = Inr ()"
    and d3: "deleteMany ex_noid_store (map conv_id [ex_candidate]) = Inr ()"
    by (simp_all add: ex_noid_store_def ex_store_def)
  have noid: "msg_id (last (messages ex_noid_merged)) = None"
    by (simp add: ex_noid_merged_def ex_m3_def)
  have fail3: "(\<exists>create e. se_client (me_summary ex_noid_store) = Client create
               \<and> create (summaryRequest (me_summary ex_noid_store) ex_noid_merged) = Inl e)
         \<or> (\<exists>create resp. se_client (me_summary ex_noid_store) = Client create
               \<and> create (summaryRequest (me_summary ex_noid_store) ex_noid_merged) = Inr resp
               \<and> extractSummaryText resp = None)
         \<or> messages ex_noid_merged = [] \<or> msg_id (last (messages ex_noid_merged)) = None"
    using noid by blast
  have r3: "mergeConversations ex_noid_store ''P'' [ex_candidate]
       = Inr \<lparr>mr_conversation = ex_noid_merged, mergedCount = 1, mergedMessages = 1\<rparr>"
    using merge_survives_summary_failure[OF f3 ex_noid_merged_eq[symmetric] fail3 s3 d3]
    by (simp add: len)
  have old3: "conv_summary ex_noid_merged = Some ex_old_summary"
    using merge_survives_summary_failure[OF f3 ex_noid_merged_eq[symmetric] fail3 s3 d3]
    by (simp add: ex_noid_primary_def ex_summarised_def)
  show ?thesis
    using f c cfg r old c2 r2 c3 noid r3 old3 by blast
qed

section \<open>Properties of the identifier list\<close>

lemma upgrade_pair [simp]:
  "id_type (upgradeIdentifier now p ver e) = id_type e"
  "id_value (upgradeIdentifier now p ver e) = id_value e"
  by (simp_all add: upgradeIdentifier_def Let_def)

lemma upgrade_isPair [simp]: "isPair t v (upgradeIdentifier now p ver e) = isPair t v e"
  by (simp add: isPair_def)

lemma upgrade_priority: "priority (upgradeIdentifier now p ver e) = max p (priority e)"
  by (simp add: upgradeIdentifier_def Let_def max_def)

lemma upgrade_verified: "verified (upgradeIdentifier now p ver e) = (ver \<or> verified e)"
  by (auto simp: upgradeIdentifier_def Let_def)

lemma find_updateFirst_same:
  "(\<And>x. P (f x) = P x) \<Longrightarrow> find P (updateFirst P f xs) = map_option f (find P xs)"
  by (induction xs) simp_all

lemma find_updateFirst_other:
  "(\<And>x. Q x \<Longrightarrow> \<not> P x \<and> \<not> P (f x)) \<Longrightarrow> find P (updateFirst Q f xs) = find P xs"
  by (induction xs) auto

lemma map_updateFirst_key:
  "(\<And>x. k (f x) = k x) \<Longrightarrow> map k (updateFirst P f xs) = map k xs"
  by (induction xs) simp_all

lemma find_append_Some: "find P xs = Some x \<Longrightarrow> find P (xs @ ys) = Some x"
  by (induction xs) (auto split: if_splits)

lemma find_None_pair:
  "find (isPair t v) ids = None \<Longrightarrow> (t, v) \<notin> set (map (\<lambda>i. (id_type i, id_value i)) ids)"
  by (auto simp: find_None_iff isPair_def)

lemma addIdentifier_step:
  assumes "find (isPair t v) (identifiers c) = Some i"
  shows "\<exists>j. find (isPair t v) (identifiers (addIdentifier now c t' v' p ver)) = Some j
             \<and> priority i \<le> priority j \<and> (verified i \<longrightarrow> verified j)"
proof (cases "find (isPair t' v') (identifiers c)")
  case None
  then show ?thesis using assms by (simp add: addIdentifier_def find_append_Some)
next
  case (Some e)
  show ?thesis
  proof (cases "t' = t \<and> v' = v")
    case True
    then show ?thesis using assms Some
      by (simp add: addIdentifier_def find_updateFirst_same upgrade_priority upgrade_verified)
  next
    case False
    have "find (isPair t v) (updateFirst (isPair t' v') (upgradeIdentifier now p ver) (identifiers c))
            = find (isPair t v) (identifiers c)"
      by (rule find_updateFirst_other) (use False in \<open>auto simp: isPair_def\<close>)
    then show ?thesis using assms Some by (simp add: addIdentifier_def)
  qed
qed

lemma addIdentifier_distinct:
  assumes "distinct (pairs c)"
  shows "distinct (pairs (addIdentifier now c t v p ver))"
proof (cases "find (isPair t v) (identifiers c)")
  case None
  then show ?thesis using assms find_None_pair[OF None]
    by (simp add: addIdentifier_def pairs_def)
next
  case (Some e)
  have "map (\<lambda>i. (id_type i, id_value i))
          (updateFirst (isPair t v) (upgradeIdentifier now p ver) (identifiers c))
        = map (\<lambda>i. (id_type i, id_value i)) (identifiers c)"
    by (rule map_updateFirst_key) simp
  then show ?thesis using assms Some by (simp add: addIdentifier_def pairs_def)
qed

lemma addIdentifiers_monotone:
  "find (isPair t v) (identifiers c) = Some i
   \<Longrightarrow> \<exists>j. find (isPair t v) (identifiers (addIdentifiers c calls)) = Some j
           \<and> priority i \<le> priority j \<and> (verified i \<longrightarrow> verified j)"
proof (induction calls arbitrary: c i)
  case Nil
  then show ?case by (simp add: addIdentifiers_def)
next
  case (Cons a calls)
  obtain j where j: "find (isPair t v) (identifiers (applyCall c a)) = Some j"
      "priority i \<le> priority j" "verified i \<longrightarrow> verified j"
    using addIdentifier_step[OF Cons.prems] unfolding applyCall_def by blast
  obtain k where k: "find (isPair t v) (identifiers (addIdentifiers (applyCall c a) calls)) = Some k"
      "priority j \<le> priority k" "verified j \<longrightarrow> verified k"
    using Cons.IH[OF j(1)] by blast
  show ?case using j k by (auto simp: addIdentifiers_def)
qed

lemma addIdentifiers_distinct:
  "distinct (pairs c) \<Longrightarrow> distinct (pairs (addIdentifiers c calls))"
proof (induction calls arbitrary: c)
  case Nil
  then show ?case by (simp add: addIdentifiers_def)
next
  case (Cons a calls)
  have "distinct (pairs (applyCall c a))"
    unfolding applyCall_def by (rule addIdentifier_distinct[OF Cons.prems])
  from Cons.IH[OF this] show ?case by (simp add: addIdentifiers_def)
qed

lemma addIdentifiers_append:
  "addIdentifiers c (xs @ ys) = addIdentifiers (addIdentifiers c xs) ys"
  by (simp add: addIdentifiers_def)

text \<open>
  C6. Take any conversation and any sequence of \<open>addIdentifier\<close> calls, split at any
  point into the calls made so far and the calls that follow. The identifier stored for
  a pair of type and value after the first part is still stored after the whole
  sequence, with a priority that is not lower, and verified if it was verified. If the
  pairs of the conversation are unique at the start they are unique at the end.
\<close>

theorem addIdentifier_monotone_unique:
  "(find (isPair t v) (identifiers (addIdentifiers c before)) = Some i
      \<longrightarrow> (\<exists>j. find (isPair t v) (identifiers (addIdentifiers c (before @ after))) = Some j
               \<and> priority i \<le> priority j \<and> (verified i \<longrightarrow> verified j)))
   \<and> (distinct (pairs c) \<longrightarrow> distinct (pairs (addIdentifiers c (before @ after))))"
  using addIdentifiers_monotone[of t v "addIdentifiers c before" i after]
        addIdentifiers_distinct[of c "before @ after"]
  by (simp add: addIdentifiers_append)

lemma ex_calls_result:
  "identifiers (addIdentifiers ex_primary ex_calls) =
     [ex_phone_low\<lparr>priority := 70, verified := True, verifiedAt := Some 10\<rparr>,
      \<lparr>id_type = ''email'', id_value = ''a@b.c'', addedAt = 30, verified = False,
       verifiedAt = None, priority = 60\<rparr>]"
  by (simp add: addIdentifiers_def applyCall_def addIdentifier_def isPair_def upgradeIdentifier_def
        ex_calls_def ex_primary_def ex_phone_low_def)

text \<open>The theorem at the example: priority 10 rises to 70 and stays, verified stays.\<close>

theorem addIdentifier_monotone_unique_witness:
  "find (isPair ''phone'' ''07911123456'') (identifiers (addIdentifiers ex_primary [])) = Some ex_phone_low
   \<and> distinct (pairs ex_primary)
   \<and> (\<exists>j. find (isPair ''phone'' ''07911123456'') (identifiers (addIdentifiers ex_primary ex_calls)) = Some j
          \<and> priority ex_phone_low \<le> priority j \<and> priority j = 70 \<and> verified j)
   \<and> distinct (pairs (addIdentifiers ex_primary ex_calls))"
proof -
  have h1: "find (isPair ''phone'' ''07911123456'') (identifiers (addIdentifiers ex_primary [])) = Some ex_phone_low"
    by (simp add: addIdentifiers_def ex_primary_def ex_phone_low_def isPair_def)
  have h2: "distinct (pairs ex_primary)"
    by (simp add: pairs_def ex_primary_def)
  have r: "find (isPair ''phone'' ''07911123456'') (identifiers (addIdentifiers ex_primary ex_calls))
         = Some (ex_phone_low\<lparr>priority := 70, verified := True, verifiedAt := Some 10\<rparr>)"
    by (simp add: ex_calls_result isPair_def ex_phone_low_def)
  show ?thesis
    using addIdentifier_monotone_unique[of "''phone''" "''07911123456''" ex_primary "[]" ex_phone_low ex_calls]
          h1 h2 r
    by simp
qed

section \<open>Properties of the identifier matcher\<close>

lemma variations_international:
  "generatePhoneVariations ''+447911123456'' = [''+447911123456'', ''447911123456'', ''07911123456'']"
  by (simp add: generatePhoneVariations_def Let_def isDigit_def startsWith_def js_length_def
        isContinuation_def isLead4_def)

lemma variations_national:
  "generatePhoneVariations ''07911123456'' = [''07911123456'', ''+447911123456'']"
  by (simp add: generatePhoneVariations_def Let_def isDigit_def startsWith_def js_length_def
        isContinuation_def isLead4_def)

lemma matchDigits_international: "matchDigits ''+447911123456'' = ''911123456''"
  by (simp add: matchDigits_def js_slice_def isDigit_def)

lemma matchDigits_national: "matchDigits ''07911123456'' = ''911123456''"
  by (simp add: matchDigits_def js_slice_def isDigit_def)

lemma key_suffix_international: "suffix ''911123456'' ''+447911123456''"
  by (simp add: suffix_to_prefix)

lemma key_suffix_national: "suffix ''911123456'' ''07911123456''"
  by (simp add: suffix_to_prefix)

text \<open>
  C8. The variations generated for \<open>+447911123456\<close> (messaging channel) and for
  \<open>07911123456\<close> (browser channel) share both literals, and both values have the
  matching key \<open>911123456\<close>, their last nine digits. So, in any collection, a
  conversation other than the current one that is stored under the messaging value as a
  \<open>whatsapp_phone\<close> identifier is found by the tool's lookup for the browser value
  (made from a conversation with an id), and
  one stored under the browser value as a \<open>phone\<close> identifier is found by the auto-merge
  lookup for the messaging value; the lookup by variations finds them as well.
\<close>

theorem phone_cross_channel_match:
  "set (generatePhoneVariations ''+447911123456'') \<inter> set (generatePhoneVariations ''07911123456'')
     = {''+447911123456'', ''07911123456''}
   \<and> matchDigits ''+447911123456'' = ''911123456''
   \<and> matchDigits ''07911123456'' = ''911123456''
   \<and> (c \<in> set docs \<and> conv_id c \<noteq> current \<and> current \<noteq> []
        \<and> list_ex (isPair ''whatsapp_phone'' ''+447911123456'') (identifiers c)
       \<longrightarrow> (\<exists>found. searchLookup docs (Some current) ''07911123456'' = Some found
                    \<and> c \<in> set found)
           \<and> c \<in> set (findConversationsByPhones docs [''07911123456''] (Some current)))
   \<and> (c \<in> set docs \<and> conv_id c \<noteq> current
        \<and> list_ex (isPair ''phone'' ''07911123456'') (identifiers c)
       \<longrightarrow> c \<in> set (autoMergeLookup docs current ''+447911123456'')
           \<and> c \<in> set (findConversationsByPhones docs [''+447911123456''] (Some current)))"
proof -
  have a: "set (generatePhoneVariations ''+447911123456'') \<inter> set (generatePhoneVariations ''07911123456'')
     = {''+447911123456'', ''07911123456''}"
    unfolding variations_international variations_national by auto
  have b: "(\<exists>found. searchLookup docs (Some current) ''07911123456'' = Some found
                    \<and> c \<in> set found)
           \<and> c \<in> set (findConversationsByPhones docs [''07911123456''] (Some current))"
    if h: "c \<in> set docs" "conv_id c \<noteq> current"
       "list_ex (isPair ''whatsapp_phone'' ''+447911123456'') (identifiers c)"
       "current \<noteq> []"
  proof -
    obtain i where i: "i \<in> set (identifiers c)" "id_type i = ''whatsapp_phone''"
        "id_value i = ''+447911123456''"
      using h(3) by (auto simp: list_ex_iff isPair_def)
    have "endsWithKey ''whatsapp_phone'' ''911123456'' c"
      unfolding endsWithKey_def list_ex_iff using i key_suffix_international by auto
    moreover have "list_ex (\<lambda>i. (id_type i = ''whatsapp_phone'' \<or> id_type i = ''phone'')
                      \<and> id_value i \<in> set (generatePhoneVariations ''07911123456'')) (identifiers c)"
      unfolding list_ex_iff variations_national using i by auto
    ultimately show ?thesis using h(1,2,4)
      by (simp add: searchLookup_def findByPhoneEnding_def matchDigits_national
            findConversationsByPhones_def isDigit_def)
  qed
  have d: "c \<in> set (autoMergeLookup docs current ''+447911123456'')
           \<and> c \<in> set (findConversationsByPhones docs [''+447911123456''] (Some current))"
    if h: "c \<in> set docs" "conv_id c \<noteq> current"
       "list_ex (isPair ''phone'' ''07911123456'') (identifiers c)"
  proof -
    obtain i where i: "i \<in> set (identifiers c)" "id_type i = ''phone''"
        "id_value i = ''07911123456''"
      using h(3) by (auto simp: list_ex_iff isPair_def)
    have "endsWithKey ''phone'' ''911123456'' c"
      unfolding endsWithKey_def list_ex_iff using i key_suffix_national by auto
    moreover have "list_ex (\<lambda>i. (id_type i = ''whatsapp_phone'' \<or> id_type i = ''phone'')
                      \<and> id_value i \<in> set (generatePhoneVariations ''+447911123456'')) (identifiers c)"
      unfolding list_ex_iff variations_international using i by auto
    ultimately show ?thesis using h(1,2)
      by (simp add: autoMergeLookup_def findByPhoneEnding_def matchDigits_international
            findConversationsByPhones_def)
  qed
  show ?thesis
    using a b d matchDigits_international matchDigits_national by blast
qed

text \<open>The theorem at the example: \<open>B\<close> and \<open>C\<close> find each other.\<close>

theorem phone_cross_channel_match_witness:
  "ex_candidate \<in> set [ex_browser, ex_candidate] \<and> conv_id ex_candidate \<noteq> ''B''
   \<and> list_ex (isPair ''whatsapp_phone'' ''+447911123456'') (identifiers ex_candidate)
   \<and> searchLookup [ex_browser, ex_candidate] (Some ''B'') ''07911123456'' = Some [ex_candidate]
   \<and> ex_browser \<in> set [ex_browser, ex_candidate] \<and> conv_id ex_browser \<noteq> ''C''
   \<and> list_ex (isPair ''phone'' ''07911123456'') (identifiers ex_browser)
   \<and> ex_browser \<in> set (autoMergeLookup [ex_browser, ex_candidate] ''C'' ''+447911123456'')"
proof -
  have h1: "ex_candidate \<in> set [ex_browser, ex_candidate] \<and> conv_id ex_candidate \<noteq> ''B''
        \<and> list_ex (isPair ''whatsapp_phone'' ''+447911123456'') (identifiers ex_candidate)"
    by (simp add: ex_candidate_def ex_whatsapp_ident_def isPair_def)
  have h2: "ex_browser \<in> set [ex_browser, ex_candidate] \<and> conv_id ex_browser \<noteq> ''C''
        \<and> list_ex (isPair ''phone'' ''07911123456'') (identifiers ex_browser)"
    by (simp add: ex_browser_def ex_phone_low_def isPair_def)
  have s: "searchLookup [ex_browser, ex_candidate] (Some ''B'') ''07911123456'' = Some [ex_candidate]"
    by (simp add: searchLookup_def findByPhoneEnding_def matchDigits_national endsWithKey_def
          suffix_to_prefix ex_browser_def ex_candidate_def ex_whatsapp_ident_def ex_phone_high_def
          ex_phone_low_def ex_primary_def isDigit_def)
  show ?thesis
    using phone_cross_channel_match[of ex_candidate "[ex_browser, ex_candidate]" "''B''"]
          phone_cross_channel_match[of ex_browser "[ex_browser, ex_candidate]" "''C''"]
          h1 h2 s
    by simp
qed

section \<open>Properties of the context assembler\<close>

lemma js_slice_last: "0 < n \<Longrightarrow> js_slice (- int n) xs = drop (length xs - n) xs"
proof -
  assume "0 < n"
  have "nat (int (length xs) + - int n) = length xs - n" by simp
  with \<open>0 < n\<close> show ?thesis by (simp add: js_slice_def)
qed

lemma summaryText_Some:
  "conv_summary conversation = Some s \<Longrightarrow> summary_text s = Some t \<Longrightarrow> t \<noteq> []
   \<Longrightarrow> summaryText conversation = Some t"
  by (simp add: summaryText_def)

lemma summaryText_pointer:
  "conv_summary conversation = Some s
   \<Longrightarrow> summaryText (conversation\<lparr>conv_summary := Some (s\<lparr>lastMessageId := x\<rparr>)\<rparr>)
       = summaryText conversation"
  by (simp add: summaryText_def)

lemma assembleHistory_summary:
  assumes "summary_enabled cfg" and "conv_summary conversation = Some s"
      and "summary_text s = Some t" and "t \<noteq> []"
      and "js_or (summary_recentMessageCount cfg) 20 = 20"
  shows "assembleHistory cfg conversation
           = summaryTurn t
               # map toPair (drop (length (messages conversation) - 20) (messages conversation))"
  using assms js_slice_last[of 20 "messages conversation"]
  by (simp add: assembleHistory_def summaryText_Some)

text \<open>
  C3. With summaries enabled, a summary whose text is not empty, and the recent-message
  count at its default of 20, the request input built for a turn is the main system
  prompt followed by the assembled context: one system turn whose content is
  \<open>CONVERSATION SUMMARY: \<close> followed by the summary text, two line feeds and the
  fixed sentence of the source, then the role and content of each of the last 20
  messages of the conversation (all of them when there are fewer), then the current
  user message. For a conversation of 25 messages the context after
  the system prompt has 1 + 20 + 1 entries. The summary's pointer to the last
  summarized message is not consulted: changing it leaves the assembled history as it
  is.
\<close>

theorem context_summary_window:
  assumes "summary_enabled cfg" and "conv_summary conversation = Some s"
      and "summary_text s = Some t" and "t \<noteq> []"
      and "js_or (summary_recentMessageCount cfg) 20 = 20"
  shows "processMessage_input cfg msg (assembleHistory cfg conversation) u
           = Turn ''system'' (systemPromptFor cfg u)
               # (Turn ''system''
                    (''CONVERSATION SUMMARY: '' @ t @ [CHR 0x0A, CHR 0x0A]
                       @ ''The above is a summary of previous messages. The following are the most recent messages.'')
                    # map (\<lambda>m. Turn (role m) (content m))
                        (drop (length (messages conversation) - 20) (messages conversation))
                    @ [Turn ''user'' msg])
       \<and> assembleHistory cfg conversation
           = (''system'',
              ''CONVERSATION SUMMARY: '' @ t @ [CHR 0x0A, CHR 0x0A]
                @ ''The above is a summary of previous messages. The following are the most recent messages.'')
               # map (\<lambda>m. (role m, content m))
                   (drop (length (messages conversation) - 20) (messages conversation))
       \<and> (length (messages conversation) = 25
            \<longrightarrow> length (tl (processMessage_input cfg msg (assembleHistory cfg conversation) u))
                  = 1 + 20 + 1)
       \<and> assembleHistory cfg (conversation\<lparr>conv_summary := Some (s\<lparr>lastMessageId := x\<rparr>)\<rparr>)
           = assembleHistory cfg conversation"
proof -
  have h: "assembleHistory cfg conversation
           = summaryTurn t
               # map toPair (drop (length (messages conversation) - 20) (messages conversation))"
    by (rule assembleHistory_summary[OF assms])
  have p: "assembleHistory cfg (conversation\<lparr>conv_summary := Some (s\<lparr>lastMessageId := x\<rparr>)\<rparr>)
           = assembleHistory cfg conversation"
    by (simp add: assembleHistory_def summaryText_pointer[OF assms(2)] split: option.splits)
  show ?thesis
    by (simp add: h p processMessage_input_def summaryTurn_def toPair_def comp_def)
qed

text \<open>The theorem at the example of 25 messages.\<close>

theorem context_summary_window_witness:
  "summary_enabled ex_config \<and> conv_summary ex_long = Some ex_old_summary
   \<and> summary_text ex_old_summary = Some ''Asked about an invoice.''
   \<and> js_or (summary_recentMessageCount ex_config) 20 = 20
   \<and> length (messages ex_long) = 25
   \<and> length (tl (processMessage_input ex_config ''hello'' (assembleHistory ex_config ex_long) None)) = 22
   \<and> assembleHistory ex_config ex_long
       = (''system'',
          ''CONVERSATION SUMMARY: Asked about an invoice.'' @ [CHR 0x0A, CHR 0x0A]
            @ ''The above is a summary of previous messages. The following are the most recent messages.'')
           # replicate 19 (role ex_m2, content ex_m2) @ [(role ex_m1, content ex_m1)]"
proof -
  have a: "summary_enabled ex_config" and b: "conv_summary ex_long = Some ex_old_summary"
    and c: "summary_text ex_old_summary = Some ''Asked about an invoice.''"
    and d: "''Asked about an invoice.'' \<noteq> []"
    and e: "js_or (summary_recentMessageCount ex_config) 20 = 20"
    and f: "length (messages ex_long) = 25"
    by (simp_all add: ex_config_def ex_long_def ex_old_summary_def js_or_def)
  have g: "drop (length (messages ex_long) - 20) (messages ex_long) = replicate 19 ex_m2 @ [ex_m1]"
    by (simp add: ex_long_def)
  note th = context_summary_window[OF a b c d e, of "''hello''" None None]
  from th f
  have "length (tl (processMessage_input ex_config ''hello'' (assembleHistory ex_config ex_long) None))
          = 1 + 20 + 1"
    by blast
  then have len: "length (tl (processMessage_input ex_config ''hello'' (assembleHistory ex_config ex_long) None)) = 22"
    by simp
  from th
  have "assembleHistory ex_config ex_long
          = (''system'',
             ''CONVERSATION SUMMARY: '' @ ''Asked about an invoice.'' @ [CHR 0x0A, CHR 0x0A]
               @ ''The above is a summary of previous messages. The following are the most recent messages.'')
              # map (\<lambda>m. (role m, content m))
                  (drop (length (messages ex_long) - 20) (messages ex_long))"
    by blast
  then have h: "assembleHistory ex_config ex_long
       = (''system'',
          ''CONVERSATION SUMMARY: Asked about an invoice.'' @ [CHR 0x0A, CHR 0x0A]
            @ ''The above is a summary of previous messages. The following are the most recent messages.'')
           # replicate 19 (role ex_m2, content ex_m2) @ [(role ex_m1, content ex_m1)]"
    unfolding g by simp
  show ?thesis
    using a b c e f len h by blast
qed

section \<open>Properties of the tool executor\<close>












section \<open>Properties of the round-trip driver\<close>

lemma scanResult_pushed:
  "list_all plainTurn (sc_pushed st) \<Longrightarrow> list_all plainTurn (sc_pushed (scanResult rt st res))"
  by (simp add: scanResult_def Let_def plainTurn_def split: sum.splits)

lemma foldl_scanResult_pushed:
  "list_all plainTurn (sc_pushed st) \<Longrightarrow> list_all plainTurn (sc_pushed (foldl (scanResult rt) st rs))"
  by (induction rs arbitrary: st) (simp_all add: scanResult_pushed)

lemma scanResults_pushed: "list_all plainTurn (sc_pushed (scanResults rt rs))"
  by (simp add: scanResults_def foldl_scanResult_pushed)

lemma instructionTurns_plain: "list_all plainTurn (instructionTurns rt instrs)"
  by (simp add: instructionTurns_def plainTurn_def)

lemma runCall_id [simp]: "fr_call_id (runCall rt exec ctx c) = tc_call_id c"
  by (simp add: runCall_def)

lemma callWithOutput_first:
  "callWithOutput (runCall rt exec ctx c1 # rs) c1
     = [FunctionCallRecord (tc_call_id c1) (tc_name c1) (tc_arguments c1),
        FunctionCallOutput (tc_call_id c1) None (fr_result (runCall rt exec ctx c1))]"
  by (simp add: callWithOutput_def)

lemma callWithOutput_second:
  "callWithOutput [runCall rt exec ctx c1, runCall rt exec ctx c2] c2
     = [FunctionCallRecord (tc_call_id c2) (tc_name c2) (tc_arguments c2),
        FunctionCallOutput (tc_call_id c2) None
          (fr_result (runCall rt exec ctx (if tc_call_id c1 = tc_call_id c2 then c1 else c2)))]"
  by (simp add: callWithOutput_def)

lemma runCall_result:
  "fr_result (runCall rt exec ctx c)
     = (case exec c ctx of Inr v \<Rightarrow> v
        | Inl e \<Rightarrow> JStr (json_stringify rt (JObj [(''error'', JBool True), (''message'', JStr (err_message e))])))"
  by (simp add: runCall_def errorResult_def split: sum.splits)

lemma executeTool_handler_throws:
  "tctx \<noteq> JNull
   \<Longrightarrow> registry (tc_name c) = Some h \<Longrightarrow> parseArguments rt (tc_arguments c) = Inr args
   \<Longrightarrow> truthy args \<Longrightarrow> typeof args = ''object''
   \<Longrightarrow> validateToolArguments (tc_name c) args = Valid
   \<Longrightarrow> h args (contextOrDefault tctx) = Threw e
   \<Longrightarrow> executeTool rt registry c tctx
       = Inr \<lparr>tr_output = json_stringify rt
                 (envelope (or_str (err_message e) ''Tool execution failed'')
                    (or_str (opt_str (err_code e)) ''EXECUTION_ERROR'')
                    (Some ''I encountered an error while processing your request. Please try again or provide more information.'')),
               tr_invoked = [(tc_name c, args)]\<rparr>"
  by (simp add: executeTool_def handlerOutput_def executionError_def)

lemma processFunctionCalls_two:
  assumes "resp_output r = Some out" and "functionCallsOf out = [c1, c2]"
  shows "processFunctionCalls rt cfg create r exec ctx
           = (case create (followUpRequest rt cfg r exec ctx) of
                Inl x \<Rightarrow> errorFallback rt
              | Inr finalResponse \<Rightarrow>
                  if hasUserCreation (scanResults rt [runCall rt exec ctx c1, runCall rt exec ctx c2])
                     \<and> replyIsEmpty finalResponse
                  then userCreationFallback rt
                         (newUserInfo (scanResults rt [runCall rt exec ctx c1, runCall rt exec ctx c2]))
                  else finalResponse)"
proof (cases out)
  case Nil
  with assms(2) show ?thesis by simp
next
  case (Cons x xs)
  then show ?thesis
    using assms
    by (simp add: processFunctionCalls_def functionResultsOf_def Let_def split: sum.splits)
qed

text \<open>
  C5. Take a reply whose output holds two function-call intents, \<open>c1\<close> before \<open>c2\<close>.
  Both are executed: there is one result per call, in the order of the reply, and the
  result of a call depends on the outcome of that call alone. An executor that throws on
  \<open>c1\<close> gives \<open>c1\<close> the envelope with \<open>error\<close> true and the message, and leaves the
  result of \<open>c2\<close> as it is; with \<open>executeTool\<close> as the executor (its context not
  being \<open>null\<close>), a handler that throws an error gives the envelope with \<open>error\<close> true
  and a code, and the executor itself does not throw. The input of the follow-up
  request is the original input, then the record of
  \<open>c1\<close> immediately followed by its output, then the record of \<open>c2\<close> immediately
  followed by its output, then items that are neither records nor outputs: exactly two
  function-call records are added, in the order of the reply. The output paired with a
  record is the first result carrying the record's call id, which is the call's own
  result when the two call ids differ. The driver sends this request: what it returns
  is the reply to it, or one of its two fixed replies (when the request throws, and
  when a profile was created and the reply holds no text).
\<close>

theorem two_function_calls_follow_up:
  assumes "resp_output r = Some out" and "functionCallsOf out = [c1, c2]"
  shows "functionResultsOf rt exec ctx [c1, c2] = [runCall rt exec ctx c1, runCall rt exec ctx c2]
       \<and> fr_result (runCall rt exec ctx c2)
           = (case exec c2 ctx of Inr v \<Rightarrow> v
              | Inl e \<Rightarrow> JStr (json_stringify rt
                                (JObj [(''error'', JBool True), (''message'', JStr (err_message e))])))
       \<and> (exec c1 ctx = Inl e
            \<longrightarrow> fr_result (runCall rt exec ctx c1)
                  = JStr (json_stringify rt
                            (JObj [(''error'', JBool True), (''message'', JStr (err_message e))])))
       \<and> (tctx \<noteq> JNull
            \<and> registry (tc_name c1) = Some h \<and> parseArguments rt (tc_arguments c1) = Inr args
            \<and> truthy args \<and> typeof args = ''object''
            \<and> validateToolArguments (tc_name c1) args = Valid
            \<and> h args (contextOrDefault tctx) = Threw e
            \<longrightarrow> executeTool rt registry c1 tctx
                  = Inr \<lparr>tr_output = json_stringify rt
                            (envelope (or_str (err_message e) ''Tool execution failed'')
                               (or_str (opt_str (err_code e)) ''EXECUTION_ERROR'')
                               (Some ''I encountered an error while processing your request. Please try again or provide more information.'')),
                          tr_invoked = [(tc_name c1, args)]\<rparr>)
       \<and> (\<exists>extras.
             req_input (followUpRequest rt cfg r exec ctx)
               = originalInput r
                   @ [FunctionCallRecord (tc_call_id c1) (tc_name c1) (tc_arguments c1),
                      FunctionCallOutput (tc_call_id c1) None (fr_result (runCall rt exec ctx c1)),
                      FunctionCallRecord (tc_call_id c2) (tc_name c2) (tc_arguments c2),
                      FunctionCallOutput (tc_call_id c2) None
                        (fr_result (runCall rt exec ctx
                           (if tc_call_id c1 = tc_call_id c2 then c1 else c2)))]
                   @ extras
             \<and> list_all (\<lambda>x. \<not> isFunctionCallRecord x \<and> \<not> isFunctionOutput x) extras)
       \<and> filter isFunctionCallRecord (req_input (followUpRequest rt cfg r exec ctx))
           = filter isFunctionCallRecord (originalInput r)
               @ [FunctionCallRecord (tc_call_id c1) (tc_name c1) (tc_arguments c1),
                  FunctionCallRecord (tc_call_id c2) (tc_name c2) (tc_arguments c2)]
       \<and> processFunctionCalls rt cfg create r exec ctx
           = (case create (followUpRequest rt cfg r exec ctx) of
                Inl x \<Rightarrow> errorFallback rt
              | Inr finalResponse \<Rightarrow>
                  if hasUserCreation (scanResults rt [runCall rt exec ctx c1, runCall rt exec ctx c2])
                     \<and> replyIsEmpty finalResponse
                  then userCreationFallback rt
                         (newUserInfo (scanResults rt [runCall rt exec ctx c1, runCall rt exec ctx c2]))
                  else finalResponse)"
proof -
  let ?rs = "[runCall rt exec ctx c1, runCall rt exec ctx c2]"
  let ?extras = "sc_pushed (scanResults rt ?rs) @ instructionTurns rt (systemInstructions (scanResults rt ?rs))"
  have res: "functionResultsOf rt exec ctx [c1, c2] = ?rs"
    by (simp add: functionResultsOf_def)
  have plain: "list_all plainTurn ?extras"
    by (simp add: scanResults_pushed instructionTurns_plain)
  have inp: "req_input (followUpRequest rt cfg r exec ctx)
               = originalInput r
                   @ [FunctionCallRecord (tc_call_id c1) (tc_name c1) (tc_arguments c1),
                      FunctionCallOutput (tc_call_id c1) None (fr_result (runCall rt exec ctx c1)),
                      FunctionCallRecord (tc_call_id c2) (tc_name c2) (tc_arguments c2),
                      FunctionCallOutput (tc_call_id c2) None
                        (fr_result (runCall rt exec ctx
                           (if tc_call_id c1 = tc_call_id c2 then c1 else c2)))]
                   @ ?extras"
    using assms
    by (simp add: followUpRequest_def followUpInput_def Let_def res callWithOutput_first
          callWithOutput_second del: append_assoc)
  have noRec: "filter isFunctionCallRecord ?extras = []"
    using plain by (simp add: list_all_iff plainTurn_def filter_empty_conv)
  have flt: "filter isFunctionCallRecord (req_input (followUpRequest rt cfg r exec ctx))
           = filter isFunctionCallRecord (originalInput r)
               @ [FunctionCallRecord (tc_call_id c1) (tc_name c1) (tc_arguments c1),
                  FunctionCallRecord (tc_call_id c2) (tc_name c2) (tc_arguments c2)]"
    unfolding inp using noRec by simp
  have ex: "\<exists>extras.
             req_input (followUpRequest rt cfg r exec ctx)
               = originalInput r
                   @ [FunctionCallRecord (tc_call_id c1) (tc_name c1) (tc_arguments c1),
                      FunctionCallOutput (tc_call_id c1) None (fr_result (runCall rt exec ctx c1)),
                      FunctionCallRecord (tc_call_id c2) (tc_name c2) (tc_arguments c2),
                      FunctionCallOutput (tc_call_id c2) None
                        (fr_result (runCall rt exec ctx
                           (if tc_call_id c1 = tc_call_id c2 then c1 else c2)))]
                   @ extras
             \<and> list_all (\<lambda>x. \<not> isFunctionCallRecord x \<and> \<not> isFunctionOutput x) extras"
    using inp plain unfolding plainTurn_def[abs_def] by blast
  have thr: "exec c1 ctx = Inl e
            \<longrightarrow> fr_result (runCall rt exec ctx c1)
                  = JStr (json_stringify rt
                            (JObj [(''error'', JBool True), (''message'', JStr (err_message e))]))"
    by (simp add: runCall_result)
  show ?thesis
    using res runCall_result[of rt exec ctx c2] thr ex flt
          executeTool_handler_throws[of tctx registry c1 h rt args e]
          processFunctionCalls_two[OF assms, of rt cfg create exec ctx]
    by blast
qed

lemma ex_executor_throwing:
  "ex_executor (ex_call ''call_1'' ''lookupOrder'' ''{}'') (JObj []) = Inr (JStr ''EXECUTION_ERROR'')"
  by (simp add: ex_executor_def executeTool_def handlerOutput_def contextOrDefault_def
        ex_registry_def ex_call_def ex_runtime_def
        parseArguments_def validateToolArguments_def executionError_def envelope_def or_str_def
        opt_str_def str_of_def js_or_val_def)

lemma ex_executor_ok:
  "ex_executor (ex_call ''call_2'' ''getCurrentTime'' ''{}'') (JObj []) = Inr (JStr ''OK'')"
  by (simp add: ex_executor_def executeTool_def handlerOutput_def contextOrDefault_def
        ex_registry_def ex_call_def ex_runtime_def
        parseArguments_def validateToolArguments_def validateGetCurrentTimeArgs_def
        str_of_def js_or_val_def)

lemma ex_follow_up:
  "req_input (followUpRequest ex_runtime ex_config ex_reply ex_executor (JObj []))
     = [FunctionCallRecord ''call_1'' ''lookupOrder'' (JStr ''{}''),
        FunctionCallOutput ''call_1'' None (JStr ''EXECUTION_ERROR''),
        FunctionCallRecord ''call_2'' ''getCurrentTime'' (JStr ''{}''),
        FunctionCallOutput ''call_2'' None (JStr ''OK'')]"
  by (simp add: followUpRequest_def followUpInput_def ex_reply_def functionResultsOf_def
        runCall_def ex_executor_throwing ex_executor_ok callWithOutput_def originalInput_def
        scanResults_def scanResult_def resultDataOf_def instructionTurns_def Let_def)
     (simp add: ex_call_def ex_runtime_def)

lemma ex_follow_up_raw:
  "req_input (followUpRequest ex_runtime ex_config ex_reply ex_raw_executor (JObj []))
     = [FunctionCallRecord ''call_1'' ''lookupOrder'' (JStr ''{}''),
        FunctionCallOutput ''call_1'' None (JStr ''tool crashed''),
        FunctionCallRecord ''call_2'' ''getCurrentTime'' (JStr ''{}''),
        FunctionCallOutput ''call_2'' None (JStr ''{}'')]"
  by (simp add: followUpRequest_def followUpInput_def ex_reply_def functionResultsOf_def
        runCall_def ex_raw_executor_def callWithOutput_def originalInput_def errorResult_def
        scanResults_def scanResult_def resultDataOf_def instructionTurns_def Let_def
        ex_call_def ex_runtime_def str_of_def js_or_val_def)

lemma ex_raw_throws:
  "ex_raw_executor (ex_call ''call_1'' ''lookupOrder'' ''{}'') (JObj []) = Inl (Error ''tool crashed'' None)"
  by (simp add: ex_raw_executor_def ex_call_def)

lemma ex_handler_throws:
  "executeTool ex_runtime ex_registry (ex_call ''call_1'' ''lookupOrder'' ''{}'') (JObj [])
     = Inr \<lparr>tr_output = ''EXECUTION_ERROR'', tr_invoked = [(''lookupOrder'', JObj [])]\<rparr>"
  by (simp add: executeTool_def handlerOutput_def contextOrDefault_def
        ex_registry_def ex_call_def ex_runtime_def
        parseArguments_def validateToolArguments_def executionError_def envelope_def or_str_def
        opt_str_def str_of_def js_or_val_def)

text \<open>
  The theorem at the example reply: two records, each followed by its output, with a
  handler that throws under \<open>executeTool\<close> and with an executor that throws.
\<close>

theorem two_function_calls_follow_up_witness:
  "resp_output ex_reply
     = Some [FunctionCall (ex_call ''call_1'' ''lookupOrder'' ''{}''), MessageItem [],
             FunctionCall (ex_call ''call_2'' ''getCurrentTime'' ''{}'')]
   \<and> functionCallsOf [FunctionCall (ex_call ''call_1'' ''lookupOrder'' ''{}''), MessageItem [],
                       FunctionCall (ex_call ''call_2'' ''getCurrentTime'' ''{}'')]
       = [ex_call ''call_1'' ''lookupOrder'' ''{}'', ex_call ''call_2'' ''getCurrentTime'' ''{}'']
   \<and> filter isFunctionCallRecord
         (req_input (followUpRequest ex_runtime ex_config ex_reply ex_executor (JObj [])))
       = [FunctionCallRecord ''call_1'' ''lookupOrder'' (JStr ''{}''),
          FunctionCallRecord ''call_2'' ''getCurrentTime'' (JStr ''{}'')]
   \<and> req_input (followUpRequest ex_runtime ex_config ex_reply ex_executor (JObj []))
       = [FunctionCallRecord ''call_1'' ''lookupOrder'' (JStr ''{}''),
          FunctionCallOutput ''call_1'' None (JStr ''EXECUTION_ERROR''),
          FunctionCallRecord ''call_2'' ''getCurrentTime'' (JStr ''{}''),
          FunctionCallOutput ''call_2'' None (JStr ''OK'')]
   \<and> executeTool ex_runtime ex_registry (ex_call ''call_1'' ''lookupOrder'' ''{}'') (JObj [])
       = Inr \<lparr>tr_output = ''EXECUTION_ERROR'', tr_invoked = [(''lookupOrder'', JObj [])]\<rparr>
   \<and> ex_raw_executor (ex_call ''call_1'' ''lookupOrder'' ''{}'') (JObj [])
       = Inl (Error ''tool crashed'' None)
   \<and> req_input (followUpRequest ex_runtime ex_config ex_reply ex_raw_executor (JObj []))
       = [FunctionCallRecord ''call_1'' ''lookupOrder'' (JStr ''{}''),
          FunctionCallOutput ''call_1'' None (JStr ''tool crashed''),
          FunctionCallRecord ''call_2'' ''getCurrentTime'' (JStr ''{}''),
          FunctionCallOutput ''call_2'' None (JStr ''{}'')]"
proof -
  have a: "resp_output ex_reply
     = Some [FunctionCall (ex_call ''call_1'' ''lookupOrder'' ''{}''), MessageItem [],
             FunctionCall (ex_call ''call_2'' ''getCurrentTime'' ''{}'')]"
    by (simp add: ex_reply_def)
  have b: "functionCallsOf [FunctionCall (ex_call ''call_1'' ''lookupOrder'' ''{}''), MessageItem [],
                       FunctionCall (ex_call ''call_2'' ''getCurrentTime'' ''{}'')]
       = [ex_call ''call_1'' ''lookupOrder'' ''{}'', ex_call ''call_2'' ''getCurrentTime'' ''{}'']"
    by simp
  have o: "originalInput ex_reply = []"
    by (simp add: originalInput_def ex_reply_def)
  from two_function_calls_follow_up[OF a b, where rt = ex_runtime and exec = ex_executor
         and ctx = "JObj []" and cfg = ex_config]
  have "filter isFunctionCallRecord
         (req_input (followUpRequest ex_runtime ex_config ex_reply ex_executor (JObj [])))
       = filter isFunctionCallRecord (originalInput ex_reply)
           @ [FunctionCallRecord (tc_call_id (ex_call ''call_1'' ''lookupOrder'' ''{}''))
                (tc_name (ex_call ''call_1'' ''lookupOrder'' ''{}''))
                (tc_arguments (ex_call ''call_1'' ''lookupOrder'' ''{}'')),
              FunctionCallRecord (tc_call_id (ex_call ''call_2'' ''getCurrentTime'' ''{}''))
                (tc_name (ex_call ''call_2'' ''getCurrentTime'' ''{}''))
                (tc_arguments (ex_call ''call_2'' ''getCurrentTime'' ''{}''))]"
    by blast
  then have f: "filter isFunctionCallRecord
         (req_input (followUpRequest ex_runtime ex_config ex_reply ex_executor (JObj [])))
       = [FunctionCallRecord ''call_1'' ''lookupOrder'' (JStr ''{}''),
          FunctionCallRecord ''call_2'' ''getCurrentTime'' (JStr ''{}'')]"
    by (simp add: o ex_call_def)
  show ?thesis
    using a b f ex_follow_up ex_handler_throws ex_raw_throws ex_follow_up_raw by blast
qed

section \<open>Properties of the message processor\<close>

lemma or_str_nonempty: "b \<noteq> [] \<Longrightarrow> or_str a b \<noteq> []"
  by (simp add: or_str_def)

lemma whatsappTurn_nonempty: "whatsappTurn env ph msg = Inr t \<Longrightarrow> t \<noteq> []"
  unfolding whatsappTurn_def Let_def
  by (auto split: sum.splits simp: or_str_nonempty)

lemma processWhatsAppMessage_nonempty: "processWhatsAppMessage env from_addr msg \<noteq> []"
  unfolding processWhatsAppMessage_def
  by (auto split: option.splits sum.splits dest: whatsappTurn_nonempty)

lemma processWhatsAppMessage_caught:
  "formatPhoneToE164 from_addr = Some ph \<Longrightarrow> ph \<noteq> [] \<Longrightarrow> whatsappTurn env ph msg = Inl e
   \<Longrightarrow> processWhatsAppMessage env from_addr msg
       = ''I encountered an error processing your message. Please try again.''"
  by (simp add: processWhatsAppMessage_def)

lemma whatsappTurn_backend_error:
  assumes "getOrCreateConversationByIdentifier env ''whatsapp_phone'' ph = Inr c0"
      and "addMessage env (conv_id c0) ''user'' msg ''whatsapp'' = Inr ()"
      and "getConversationById env (conv_id (autoMerge env c0 ph)) = Inr c"
      and "responses_create env
             (processMessage_request (mp_config env) msg (assembleHistory (mp_config env) c)
                (Some (userInfoFor c)) (previousResponseId c) (mp_tools env)) = Inl e"
  shows "whatsappTurn env ph msg = Inl e"
  using assms by (simp add: whatsappTurn_def processMessage_def)

lemma whatsappTurn_empty_reply:
  assumes "getOrCreateConversationByIdentifier env ''whatsapp_phone'' ph = Inr c0"
      and "addMessage env (conv_id c0) ''user'' msg ''whatsapp'' = Inr ()"
      and "getConversationById env (conv_id (autoMerge env c0 ph)) = Inr c"
      and "responses_create env
             (processMessage_request (mp_config env) msg (assembleHistory (mp_config env) c)
                (Some (userInfoFor c)) (previousResponseId c) (mp_tools env)) = Inr resp"
      and "\<not> hasFunctionCalls resp" and "extractResponseText (mp_rt env) resp = []"
      and "addMessage env (conv_id c) ''assistant'' [] ''whatsapp'' = Inr ()"
      and "updateResponseId env (conv_id c) (resp_id resp) = Inr ()"
  shows "whatsappTurn env ph msg = Inr ''I processed your request but have no specific response.''"
  using assms by (simp add: whatsappTurn_def processMessage_def or_str_def)

lemma processFunctionCalls_backend_error:
  "resp_output r = Some out \<Longrightarrow> out \<noteq> []
   \<Longrightarrow> create (followUpRequest rt cfg r exec ctx) = Inl e
   \<Longrightarrow> processFunctionCalls rt cfg create r exec ctx = errorFallback rt"
  by (cases out) (simp_all add: processFunctionCalls_def)

lemma errorFallback_text:
  "extractResponseText rt (errorFallback rt)
     = ''I experienced an error processing your request. Can you please try again?''"
  by (simp add: extractResponseText_def errorFallback_def textResponse_def)

text \<open>
  C4. \<open>processWhatsAppMessage\<close> returns a string that is not empty, for every sender,
  message and behaviour of its collaborators; the model has no failing outcome, every
  throw of the source being caught. Any step of the turn that throws gives the fixed
  apology; in particular a model backend that throws on the request does. A reply with
  no text and no function calls gives the fixed fallback text. When the follow-up
  request of the tool round trip throws, \<open>processFunctionCalls\<close> returns its own fixed
  reply, whose text is not empty.
\<close>

theorem whatsapp_reply_never_empty:
  "processWhatsAppMessage env from_addr msg \<noteq> []
   \<and> (formatPhoneToE164 from_addr = Some ph \<and> ph \<noteq> [] \<and> whatsappTurn env ph msg = Inl e
        \<longrightarrow> processWhatsAppMessage env from_addr msg
              = ''I encountered an error processing your message. Please try again.'')
   \<and> (formatPhoneToE164 from_addr = Some ph \<and> ph \<noteq> []
        \<and> getOrCreateConversationByIdentifier env ''whatsapp_phone'' ph = Inr c0
        \<and> addMessage env (conv_id c0) ''user'' msg ''whatsapp'' = Inr ()
        \<and> getConversationById env (conv_id (autoMerge env c0 ph)) = Inr c
        \<and> responses_create env
             (processMessage_request (mp_config env) msg (assembleHistory (mp_config env) c)
                (Some (userInfoFor c)) (previousResponseId c) (mp_tools env)) = Inl e
        \<longrightarrow> processWhatsAppMessage env from_addr msg
              = ''I encountered an error processing your message. Please try again.'')
   \<and> (formatPhoneToE164 from_addr = Some ph \<and> ph \<noteq> []
        \<and> getOrCreateConversationByIdentifier env ''whatsapp_phone'' ph = Inr c0
        \<and> addMessage env (conv_id c0) ''user'' msg ''whatsapp'' = Inr ()
        \<and> getConversationById env (conv_id (autoMerge env c0 ph)) = Inr c
        \<and> responses_create env
             (processMessage_request (mp_config env) msg (assembleHistory (mp_config env) c)
                (Some (userInfoFor c)) (previousResponseId c) (mp_tools env)) = Inr resp
        \<and> \<not> hasFunctionCalls resp \<and> extractResponseText (mp_rt env) resp = []
        \<and> addMessage env (conv_id c) ''assistant'' [] ''whatsapp'' = Inr ()
        \<and> updateResponseId env (conv_id c) (resp_id resp) = Inr ()
        \<longrightarrow> processWhatsAppMessage env from_addr msg
              = ''I processed your request but have no specific response.'')
   \<and> (resp_output r = Some out \<and> out \<noteq> []
        \<and> create (followUpRequest rt cfg r exec ctx) = Inl e
        \<longrightarrow> processFunctionCalls rt cfg create r exec ctx = errorFallback rt
            \<and> extractResponseText rt (errorFallback rt)
                = ''I experienced an error processing your request. Can you please try again?'')"
proof -
  have a: "processWhatsAppMessage env from_addr msg
              = ''I encountered an error processing your message. Please try again.''"
    if "formatPhoneToE164 from_addr = Some ph" "ph \<noteq> []"
       "getOrCreateConversationByIdentifier env ''whatsapp_phone'' ph = Inr c0"
       "addMessage env (conv_id c0) ''user'' msg ''whatsapp'' = Inr ()"
       "getConversationById env (conv_id (autoMerge env c0 ph)) = Inr c"
       "responses_create env
             (processMessage_request (mp_config env) msg (assembleHistory (mp_config env) c)
                (Some (userInfoFor c)) (previousResponseId c) (mp_tools env)) = Inl e"
    using processWhatsAppMessage_caught[OF that(1,2) whatsappTurn_backend_error[OF that(3-6)]] .
  have b: "processWhatsAppMessage env from_addr msg
              = ''I processed your request but have no specific response.''"
    if "formatPhoneToE164 from_addr = Some ph" "ph \<noteq> []"
       "getOrCreateConversationByIdentifier env ''whatsapp_phone'' ph = Inr c0"
       "addMessage env (conv_id c0) ''user'' msg ''whatsapp'' = Inr ()"
       "getConversationById env (conv_id (autoMerge env c0 ph)) = Inr c"
       "responses_create env
             (processMessage_request (mp_config env) msg (assembleHistory (mp_config env) c)
                (Some (userInfoFor c)) (previousResponseId c) (mp_tools env)) = Inr resp"
       "\<not> hasFunctionCalls resp" "extractResponseText (mp_rt env) resp = []"
       "addMessage env (conv_id c) ''assistant'' [] ''whatsapp'' = Inr ()"
       "updateResponseId env (conv_id c) (resp_id resp) = Inr ()"
    using whatsappTurn_empty_reply[OF that(3-10)] that(1,2)
    by (simp add: processWhatsAppMessage_def)
  show ?thesis
    using processWhatsAppMessage_nonempty[of env from_addr msg]
          processWhatsAppMessage_caught[of from_addr ph env msg e]
          a b processFunctionCalls_backend_error[of r out create rt cfg exec ctx e]
          errorFallback_text[of rt]
    by blast
qed

lemma format_whatsapp_sender:
  "formatPhoneToE164 (Some ''whatsapp:+447911123456'') = Some ''+447911123456''"
  by (simp add: formatPhoneToE164_def startsWith_def spaceAtStart_def whiteSpace_def)

lemma ex_down_fallback:
  "processFunctionCalls ex_runtime ex_config ex_backend_down ex_reply ex_executor (JObj [])
     = errorFallback ex_runtime"
  by (simp add: processFunctionCalls_def ex_reply_def ex_backend_down_def)

text \<open>The theorem at the example: a failing backend, a silent backend, a missing sender.\<close>

theorem whatsapp_reply_never_empty_witness:
  "formatPhoneToE164 (Some ''whatsapp:+447911123456'') = Some ''+447911123456''
   \<and> processWhatsAppMessage (ex_mp_env ex_backend_down) (Some ''whatsapp:+447911123456'') ''hello''
       = ''I encountered an error processing your message. Please try again.''
   \<and> processWhatsAppMessage (ex_mp_env ex_backend_silent) (Some ''whatsapp:+447911123456'') ''hello''
       = ''I processed your request but have no specific response.''
   \<and> processWhatsAppMessage (ex_mp_env ex_backend_down) None ''hello'' \<noteq> []
   \<and> processFunctionCalls ex_runtime ex_config ex_backend_down ex_reply ex_executor (JObj [])
       = errorFallback ex_runtime
   \<and> extractResponseText ex_runtime (errorFallback ex_runtime)
       = ''I experienced an error processing your request. Can you please try again?''"
proof -
  note f = format_whatsapp_sender
  have am: "autoMerge (ex_mp_env create) ex_candidate ''+447911123456'' = ex_candidate" for create
    by (simp add: autoMerge_def ex_mp_env_def autoMergeLookup_def findByPhoneEnding_def)
  have down: "processWhatsAppMessage (ex_mp_env ex_backend_down) (Some ''whatsapp:+447911123456'') ''hello''
       = ''I encountered an error processing your message. Please try again.''"
    using whatsapp_reply_never_empty
            [where env = "ex_mp_env ex_backend_down" and from_addr = "Some ''whatsapp:+447911123456''"
               and msg = "''hello''" and ph = "''+447911123456''" and c0 = ex_candidate
               and c = ex_candidate and e = "Error ''503 Service Unavailable'' None"]
          f am[of ex_backend_down]
    by (simp add: ex_mp_env_def ex_backend_down_def)
  have silent: "processWhatsAppMessage (ex_mp_env ex_backend_silent) (Some ''whatsapp:+447911123456'') ''hello''
       = ''I processed your request but have no specific response.''"
    using whatsapp_reply_never_empty
            [where env = "ex_mp_env ex_backend_silent" and from_addr = "Some ''whatsapp:+447911123456''"
               and msg = "''hello''" and ph = "''+447911123456''" and c0 = ex_candidate
               and c = ex_candidate
               and resp = "\<lparr>resp_id = Some ''resp_2'', resp_output = Some [], resp_input = None,
                              resp_model = None, resp_tools = None\<rparr>"]
          f am[of ex_backend_silent]
    by (simp add: ex_mp_env_def ex_backend_silent_def hasFunctionCalls_def extractResponseText_def)
  have none: "processWhatsAppMessage (ex_mp_env ex_backend_down) None ''hello'' \<noteq> []"
    using whatsapp_reply_never_empty[where env = "ex_mp_env ex_backend_down" and from_addr = None
            and msg = "''hello''"]
    by blast
  have fb: "extractResponseText ex_runtime (errorFallback ex_runtime)
       = ''I experienced an error processing your request. Can you please try again?''"
    by (rule errorFallback_text)
  show ?thesis using f down silent none ex_down_fallback fb by blast
qed

end
